theory Spec2Isabelle
  imports Complex_Main
begin

section \<open>JavaScript values\<close>

text \<open>
  A JavaScript \<^verbatim>\<open>number\<close> is an IEEE-754 double: a finite value, one of the two
  infinities, or NaN. The player only compares numbers with the constants \<open>0\<close> and \<open>1\<close>,
  and a comparison of doubles is exact, so the finite values are embedded in the reals
  (both zeros are \<open>Fin 0\<close>). Every comparison with NaN is false.
\<close>

datatype jsnum = Fin real | PosInf | NegInf | NaN

fun num_gt :: "jsnum \<Rightarrow> real \<Rightarrow> bool" where
  "num_gt (Fin x) c = (x > c)"
| "num_gt PosInf c = True"
| "num_gt NegInf c = False"
| "num_gt NaN c = False"

fun num_le :: "jsnum \<Rightarrow> real \<Rightarrow> bool" where
  "num_le (Fin x) c = (x \<le> c)"
| "num_le PosInf c = False"
| "num_le NegInf c = True"
| "num_le NaN c = False"

text \<open>
  Arithmetic on doubles (\<^verbatim>\<open>Math.round\<close>, \<^verbatim>\<open>*\<close>, \<^verbatim>\<open>/\<close>) and the conversion of a
  number to a string are left symbolic: the text written to the page is recorded as the
  expression that computes it.
\<close>

datatype numexpr =
    Val jsnum
  | Round numexpr
  | Times numexpr numexpr
  | Divide numexpr numexpr

datatype domstr =
    Lit string
  | NumToStr numexpr
  | Cat domstr domstr
  | FormatVideoTime numexpr

text \<open>The values an option can hold, and JavaScript's truthiness.\<close>

datatype jsval = Undefined | Null | Bool bool | Str string

fun truthy :: "jsval \<Rightarrow> bool" where
  "truthy Undefined = False"
| "truthy Null = False"
| "truthy (Bool b) = b"
| "truthy (Str s) = (s \<noteq> [])"

type_synonym options = "string \<rightharpoonup> jsval"

definition opt :: "options \<Rightarrow> string \<Rightarrow> jsval" where
  "opt os k = (case os k of None \<Rightarrow> Undefined | Some v \<Rightarrow> v)"

datatype exn = Error string | TypeError string

text \<open>
  The eventual outcome of a promise. \<open>Never\<close> is a promise that stays pending for ever.
\<close>

datatype 'a promise = Fulfilled 'a | Rejected exn | Never

text \<open>
  A value passed where a function is expected: a function, known by its identity, or
  anything else. The body of a listener or of the \<^verbatim>\<open>onReady\<close> callback is code of the
  host application: the model records that it was called, and the player's field
  \<open>outcome\<close> says for each function whether it returns normally (\<open>None\<close>) or throws. A
  function that calls back into the player is outside the model.
\<close>

datatype callable = Function nat | NonFunction

section \<open>The capability contract: the methods a provider overrides\<close>

datatype capability =
    Init
  | WaitUntilVideoIsReady
  | GetInstance
  | GetCurrentTime
  | MethodSeekTo
  | GetDuration
  | MethodPlay
  | MethodPause
  | MethodSetVolume
  | MethodGetVolume
  | MethodMute
  | MethodUnMute

text \<open>The source name of each capability.\<close>

fun methodName :: "capability \<Rightarrow> string" where
  "methodName Init = ''init''"
| "methodName WaitUntilVideoIsReady = ''waitUntilVideoIsReady''"
| "methodName GetInstance = ''getInstance''"
| "methodName GetCurrentTime = ''getCurrentTime''"
| "methodName MethodSeekTo = ''methodSeekTo''"
| "methodName GetDuration = ''getDuration''"
| "methodName MethodPlay = ''methodPlay''"
| "methodName MethodPause = ''methodPause''"
| "methodName MethodSetVolume = ''methodSetVolume''"
| "methodName MethodGetVolume = ''methodGetVolume''"
| "methodName MethodMute = ''methodMute''"
| "methodName MethodUnMute = ''methodUnMute''"

text \<open>
  The bodies of the base class \<^verbatim>\<open>Player\<close>: each one is a single \<^verbatim>\<open>throw new Error(...)\<close>.
  \<open>base m\<close> is the exception thrown by the body of \<open>m\<close>.
\<close>

fun base :: "capability \<Rightarrow> exn" where
  "base Init = Error ''You have to implement the function \"init\".''"
| "base WaitUntilVideoIsReady =
     Error ''You have to implement the function \"waitUntilVideoIsReady\".''"
| "base GetInstance = Error ''You have to implement the function \"getInstance\".''"
| "base GetCurrentTime = Error ''You have to implement the function \"getCurrentTime\".''"
| "base MethodSeekTo = Error ''You have to implement the function \"methodSeekTo\".''"
| "base GetDuration = Error ''You have to implement the function \"getDuration\".''"
| "base MethodPlay = Error ''You have to implement the function \"methodPlay\".''"
| "base MethodPause = Error ''You have to implement the function \"methodPause\".''"
| "base MethodSetVolume = Error ''You have to implement the function \"methodSetVolume\".''"
| "base MethodGetVolume = Error ''You have to implement the function \"methodGetVolume\".''"
| "base MethodMute = Error ''You have to implement the function \"methodMute\".''"
| "base MethodUnMute = Error ''You have to implement the function \"methodUnMute\".''"

section \<open>The page: elements, the media element, the document\<close>

text \<open>
  An element of the page, with the parts the player reads and writes: its class list (a
  \<^verbatim>\<open>DOMTokenList\<close>, a set of tokens), its attributes, the \<^verbatim>\<open>value\<close> of an input, its
  style properties and its \<^verbatim>\<open>innerHTML\<close>.
\<close>

record element =
  classList :: "string set"
  attributes :: "string \<rightharpoonup> domstr"
  el_value :: domstr
  style :: "string \<rightharpoonup> domstr"
  innerHTML :: domstr

definition classAdd :: "string \<Rightarrow> element \<Rightarrow> element" where
  "classAdd c e = e\<lparr>classList := insert c (classList e)\<rparr>"

definition classRemove :: "string \<Rightarrow> element \<Rightarrow> element" where
  "classRemove c e = e\<lparr>classList := classList e - {c}\<rparr>"

text \<open>\<^verbatim>\<open>classList.replace(a, b)\<close> does nothing when \<open>a\<close> is not in the list.\<close>

definition classReplace :: "string \<Rightarrow> string \<Rightarrow> element \<Rightarrow> element" where
  "classReplace a b e =
     (if a \<in> classList e then e\<lparr>classList := insert b (classList e - {a})\<rparr> else e)"

definition setAttribute :: "string \<Rightarrow> domstr \<Rightarrow> element \<Rightarrow> element" where
  "setAttribute k v e = e\<lparr>attributes := (attributes e)(k \<mapsto> v)\<rparr>"

definition removeAttribute :: "string \<Rightarrow> element \<Rightarrow> element" where
  "removeAttribute k e = e\<lparr>attributes := (attributes e)(k := None)\<rparr>"

definition setProperty :: "string \<Rightarrow> domstr \<Rightarrow> element \<Rightarrow> element" where
  "setProperty k v e = e\<lparr>style := (style e)(k \<mapsto> v)\<rparr>"

text \<open>The references \<^verbatim>\<open>Player.elements\<close>; \<open>None\<close> is \<^verbatim>\<open>null\<close>.\<close>

record elements =
  container :: element
  bigPlay :: "element option"
  poster :: "element option"
  controlBar :: "element option"
  playPause :: "element option"
  progressBar :: "element option"
  currentTime :: "element option"
  duration :: "element option"
  volume :: "element option"
  fullscreen :: "element option"

text \<open>
  The media element: whether it is an \<^verbatim>\<open>HTMLAudioElement\<close>, an \<^verbatim>\<open>HTMLVideoElement\<close> or
  another node, the names of the attributes it has, its \<^verbatim>\<open>muted\<close> property, the names of
  its properties that hold a truthy value (read by \<^verbatim>\<open>this.media[requestFn]\<close>), and whether
  it has a parent node.
\<close>

datatype nodeKind = VideoNode | AudioNode | OtherNode

record media =
  nodeKind :: nodeKind
  m_attributes :: "string set"
  m_muted :: bool
  m_truthy :: "string set"
  m_hasParent :: bool

text \<open>The result of \<^verbatim>\<open>checkSupportFullScreen()\<close>: four property and event names.\<close>

record fullScreenSupport =
  requestFn :: string
  cancelFn :: string
  changeEvent :: string
  isFullScreenName :: string

text \<open>
  What the control bar's template renders, as \<^verbatim>\<open>cacheElements\<close> finds it: the node with
  class \<^verbatim>\<open>v-controlBar\<close> and the six controls inside it, each absent when the template
  leaves it out.
\<close>

record controls =
  t_controlBar :: "element option"
  t_playPause :: "element option"
  t_progressBar :: "element option"
  t_currentTime :: "element option"
  t_duration :: "element option"
  t_volume :: "element option"
  t_fullscreen :: "element option"

section \<open>The effects of a call\<close>

text \<open>
  What a call does beyond changing the player is appended to a trace: the contract methods
  it invokes (with their arguments), the events it dispatches and the listeners these run,
  calls of functions of the page, timers, and promise rejections that no handler takes.
\<close>

datatype effect =
    Call capability "jsnum list"
  | Dispatch string
  | Run string nat
  | UnhandledRejection exn
  | ContainerCall string
  | DocumentCall string
  | ClearTimeout
  | SetTimeout
  | OnReady nat
  | Render
  | AddEventListener string string
  | RemoveEventListener string string
  | RemoveContainer

section \<open>The player\<close>

text \<open>
  \<^verbatim>\<open>customEvents\<close> is a plain object used as a dictionary. Its own enumerable properties
  are the map \<open>own\<close>. One key is not an ordinary property: an assignment to
  \<^verbatim>\<open>obj['__proto__']\<close> goes to the accessor inherited from \<^verbatim>\<open>Object.prototype\<close> and
  replaces the prototype of \<open>obj\<close> instead of creating an own property, and a read returns
  that prototype. \<open>proto\<close> is \<open>Some a\<close> once the prototype has been replaced by the array
  \<open>a\<close>.
\<close>

record jsobject =
  own :: "string \<rightharpoonup> nat list"
  proto :: "nat list option"

text \<open>\<^verbatim>\<open>Object.keys(obj).includes(k)\<close>\<close>

definition hasOwn :: "jsobject \<Rightarrow> string \<Rightarrow> bool" where
  "hasOwn obj k = (own obj k \<noteq> None)"

text \<open>\<^verbatim>\<open>obj[k] = a\<close>\<close>

definition setProp :: "jsobject \<Rightarrow> string \<Rightarrow> nat list \<Rightarrow> jsobject" where
  "setProp obj k a =
     (if k = ''__proto__'' then obj\<lparr>proto := Some a\<rparr> else obj\<lparr>own := (own obj)(k \<mapsto> a)\<rparr>)"

text \<open>
  \<^verbatim>\<open>obj[k].push(f)\<close>, where \<open>obj[k]\<close> is an array: \<^verbatim>\<open>on\<close> calls it only after the
  assignment above or when \<open>k\<close> is an own key.
\<close>

definition pushProp :: "jsobject \<Rightarrow> string \<Rightarrow> nat \<Rightarrow> jsobject" where
  "pushProp obj k f =
     (if k = ''__proto__'' then obj\<lparr>proto := map_option (\<lambda>a. a @ [f]) (proto obj)\<rparr>
      else obj\<lparr>own := (own obj)(k := map_option (\<lambda>a. a @ [f]) (own obj k))\<rparr>)"

text \<open>
  The host object \<^verbatim>\<open>Vlitejs\<close>, with the fields the player reads. Its \<^verbatim>\<open>media\<close>,
  \<^verbatim>\<open>options\<close>, \<^verbatim>\<open>container\<close> and \<^verbatim>\<open>type\<close> are the same objects as the player's and
  are kept once, in the player.
\<close>

record vlitejs =
  onReady :: callable
  v_isPaused :: bool
  v_delayAutoHide :: nat
  supportFullScreen :: fullScreenSupport
  autoHideGranted :: bool
  plugins :: "string list"

text \<open>
  The provider: the contract methods its class overrides, and what the promises returned
  by its three queries settle to.
\<close>

record adapter =
  provided :: "capability set"
  currentTimeResult :: "jsnum promise"
  durationResult :: "jsnum promise"
  volumeResult :: "jsnum promise"

record player =
  Vlitejs :: vlitejs
  ptype :: string
  media :: media
  options :: options
  elements :: elements
  isFullScreen :: bool
  isMuted :: jsval
  isPaused :: "bool option"
  delayAutoHide :: nat
  customEvents :: jsobject
  adapter :: adapter
  template :: "options \<Rightarrow> jsval \<Rightarrow> string \<Rightarrow> controls"
  containerFunctions :: "string set"
  documentTruthy :: "string set"
  outcome :: "nat \<Rightarrow> exn option"
  trace :: "effect list"

definition emit :: "effect \<Rightarrow> player \<Rightarrow> player" where
  "emit x p = p\<lparr>trace := trace p @ [x]\<rparr>"

text \<open>
  A call returns the player as it left it and the exception it threw, if any: what a
  call changed before it threw stays changed.
\<close>

definition ok :: "player \<Rightarrow> player \<times> exn option" where
  "ok p = (p, None)"

definition seq ::
  "player \<times> exn option \<Rightarrow> (player \<Rightarrow> player \<times> exn option) \<Rightarrow> player \<times> exn option" where
  "seq r f = (case r of (p, None) \<Rightarrow> f p | (p, Some e) \<Rightarrow> (p, Some e))"

text \<open>
  Invoking a capability: the provider's override returns normally, the base body
  throws.
\<close>

definition invoke :: "capability \<Rightarrow> jsnum list \<Rightarrow> player \<Rightarrow> player \<times> exn option" where
  "invoke m args p =
     (let p1 = emit (Call m args) p
      in if m \<in> provided (adapter p1) then (p1, None) else (p1, Some (base m)))"

text \<open>A query returns a promise, or throws when the provider does not override it.\<close>

definition query :: "capability \<Rightarrow> jsnum promise \<Rightarrow> player \<Rightarrow> player \<times> (exn + jsnum promise)" where
  "query m r p =
     (let p1 = emit (Call m []) p
      in if m \<in> provided (adapter p1) then (p1, Inr r) else (p1, Inl (base m)))"

definition getCurrentTime :: "player \<Rightarrow> player \<times> (exn + jsnum promise)" where
  "getCurrentTime p = query GetCurrentTime (currentTimeResult (adapter p)) p"

definition getDuration :: "player \<Rightarrow> player \<times> (exn + jsnum promise)" where
  "getDuration p = query GetDuration (durationResult (adapter p)) p"

definition methodGetVolume :: "player \<Rightarrow> player \<times> (exn + jsnum promise)" where
  "methodGetVolume p = query MethodGetVolume (volumeResult (adapter p)) p"

text \<open>
  \<^verbatim>\<open>promise.then(callback)\<close> with no rejection handler. The callback runs once the promise
  is fulfilled; the promise that \<^verbatim>\<open>then\<close> returns is rejected when the first one is, and
  when the callback throws. The callback runs after the call that attached it has
  returned; a call is modelled together with the callbacks it leaves behind, run to
  completion.
\<close>

definition thenDo ::
  "'a promise \<Rightarrow> ('a \<Rightarrow> player \<Rightarrow> player \<times> exn option) \<Rightarrow> player \<Rightarrow> player \<times> unit promise" where
  "thenDo pr callback p =
     (case pr of
        Fulfilled x \<Rightarrow>
          (case callback x p of (p1, None) \<Rightarrow> (p1, Fulfilled ()) | (p1, Some e) \<Rightarrow> (p1, Rejected e))
      | Rejected e \<Rightarrow> (p, Rejected e)
      | Never \<Rightarrow> (p, Never))"

text \<open>
  A promise that the code drops without attaching a handler: when it is rejected, the
  runtime reports an unhandled rejection.
\<close>

definition discard :: "player \<times> 'a promise \<Rightarrow> player" where
  "discard r =
     (case r of (p, Rejected e) \<Rightarrow> emit (UnhandledRejection e) p | (p, _) \<Rightarrow> p)"

text \<open>
  \<^verbatim>\<open>Promise.all([a, b])\<close>: fulfilled with both values when both are, rejected as soon as
  one is rejected. When both are rejected the reason is that of the one settled first;
  the model takes the first of the array.
\<close>

fun promiseAll :: "'a promise \<Rightarrow> 'b promise \<Rightarrow> ('a \<times> 'b) promise" where
  "promiseAll (Rejected e) b = Rejected e"
| "promiseAll a (Rejected e) = Rejected e"
| "promiseAll (Fulfilled x) (Fulfilled y) = Fulfilled (x, y)"
| "promiseAll a b = Never"

subsection \<open>The event registry\<close>

definition on :: "string \<Rightarrow> callable \<Rightarrow> player \<Rightarrow> player" where
  "on ty listener p =
     (case listener of
        NonFunction \<Rightarrow> p
      | Function f \<Rightarrow>
          (let ce = customEvents p;
               ce1 = (if \<not> hasOwn ce ty then setProp ce ty [] else ce)
           in p\<lparr>customEvents := pushProp ce1 ty f\<rparr>))"

text \<open>
  \<^verbatim>\<open>listeners.forEach((listener) => listener())\<close>: the listeners are called in the order
  of the array, and the first one that throws ends the loop with its exception.
\<close>

fun forEachListener :: "string \<Rightarrow> nat list \<Rightarrow> player \<Rightarrow> player \<times> exn option" where
  "forEachListener ty [] p = (p, None)"
| "forEachListener ty (f # fs) p =
     (let p1 = emit (Run ty f) p
      in case outcome p1 f of
           None \<Rightarrow> forEachListener ty fs p1
         | Some e \<Rightarrow> (p1, Some e))"

definition dispatchEvent :: "string \<Rightarrow> player \<Rightarrow> player \<times> exn option" where
  "dispatchEvent ty p =
     (let p1 = emit (Dispatch ty) p
      in case own (customEvents p1) ty of
           None \<Rightarrow> (p1, None)
         | Some listeners \<Rightarrow> forEachListener ty listeners p1)"

subsection \<open>Guarded updates of the element references\<close>

text \<open>
  Each \<open>updX f\<close> is the statement \<^verbatim>\<open>if (this.elements.X) { f(this.elements.X) }\<close>; the
  container is never \<^verbatim>\<open>null\<close>.
\<close>

definition updContainer :: "(element \<Rightarrow> element) \<Rightarrow> player \<Rightarrow> player" where
  "updContainer f p = p\<lparr>elements := (elements p)\<lparr>container := f (container (elements p))\<rparr>\<rparr>"

definition updBigPlay :: "(element \<Rightarrow> element) \<Rightarrow> player \<Rightarrow> player" where
  "updBigPlay f p = p\<lparr>elements := (elements p)\<lparr>bigPlay := map_option f (bigPlay (elements p))\<rparr>\<rparr>"

definition updPoster :: "(element \<Rightarrow> element) \<Rightarrow> player \<Rightarrow> player" where
  "updPoster f p = p\<lparr>elements := (elements p)\<lparr>poster := map_option f (poster (elements p))\<rparr>\<rparr>"

definition updControlBar :: "(element \<Rightarrow> element) \<Rightarrow> player \<Rightarrow> player" where
  "updControlBar f p =
     p\<lparr>elements := (elements p)\<lparr>controlBar := map_option f (controlBar (elements p))\<rparr>\<rparr>"

definition updPlayPause :: "(element \<Rightarrow> element) \<Rightarrow> player \<Rightarrow> player" where
  "updPlayPause f p =
     p\<lparr>elements := (elements p)\<lparr>playPause := map_option f (playPause (elements p))\<rparr>\<rparr>"

definition updProgressBar :: "(element \<Rightarrow> element) \<Rightarrow> player \<Rightarrow> player" where
  "updProgressBar f p =
     p\<lparr>elements := (elements p)\<lparr>progressBar := map_option f (progressBar (elements p))\<rparr>\<rparr>"

definition updCurrentTime :: "(element \<Rightarrow> element) \<Rightarrow> player \<Rightarrow> player" where
  "updCurrentTime f p =
     p\<lparr>elements := (elements p)\<lparr>currentTime := map_option f (currentTime (elements p))\<rparr>\<rparr>"

definition updDuration :: "(element \<Rightarrow> element) \<Rightarrow> player \<Rightarrow> player" where
  "updDuration f p =
     p\<lparr>elements := (elements p)\<lparr>duration := map_option f (duration (elements p))\<rparr>\<rparr>"

definition updVolume :: "(element \<Rightarrow> element) \<Rightarrow> player \<Rightarrow> player" where
  "updVolume f p = p\<lparr>elements := (elements p)\<lparr>volume := map_option f (volume (elements p))\<rparr>\<rparr>"

definition updFullscreen :: "(element \<Rightarrow> element) \<Rightarrow> player \<Rightarrow> player" where
  "updFullscreen f p =
     p\<lparr>elements := (elements p)\<lparr>fullscreen := map_option f (fullscreen (elements p))\<rparr>\<rparr>"

subsection \<open>The host's methods that the player calls\<close>

text \<open>
  \<^verbatim>\<open>this.container.querySelector('.v-controlBar')\<close> is the node that the control bar
  rendered and cached as \<^verbatim>\<open>elements.controlBar\<close>, and \<^verbatim>\<open>null\<close> before that. The host's
  \<^verbatim>\<open>type\<close> is the player's.
\<close>

definition stopAutoHideTimer :: "player \<Rightarrow> player" where
  "stopAutoHideTimer p =
     (if ptype p = ''video'' \<and> controlBar (elements p) \<noteq> None
      then emit ClearTimeout (updControlBar (classRemove ''hidden'') p)
      else p)"

definition startAutoHideTimer :: "player \<Rightarrow> player" where
  "startAutoHideTimer p =
     (if ptype p = ''video'' \<and> \<not> v_isPaused (Vlitejs p) \<and> controlBar (elements p) \<noteq> None
      then emit SetTimeout p
      else p)"

definition Vlitejs_loading :: "bool \<Rightarrow> player \<Rightarrow> player \<times> exn option" where
  "Vlitejs_loading state p =
     dispatchEvent ''progress''
       (updContainer (if state then classAdd ''v-loading'' else classRemove ''v-loading'') p)"

subsection \<open>Playback\<close>

definition loading :: "bool \<Rightarrow> player \<Rightarrow> player \<times> exn option" where
  "loading status p = Vlitejs_loading status p"

definition afterPlayPause :: "player \<Rightarrow> player" where
  "afterPlayPause p =
     (if autoHideGranted (Vlitejs p) then
        (let p1 = stopAutoHideTimer p
         in if isPaused p1 \<noteq> Some True then startAutoHideTimer p1 else p1)
      else p)"

definition play :: "player \<Rightarrow> player \<times> exn option" where
  "play p =
     (let p1 =
        (if ''v-firstStart'' \<in> classList (container (elements p)) then
           (let q = updContainer (classRemove ''v-firstStart'') p
            in if ptype q = ''video'' then updPoster (classRemove ''v-active'') q else q)
         else p)
      in seq (invoke MethodPlay [] p1) (\<lambda>p2.
           let p3 = p2\<lparr>isPaused := Some False\<rparr>;
               p4 = updContainer (classReplace ''v-paused'' ''v-playing'') p3;
               p5 = updPlayPause (setAttribute ''aria-label'' (Lit ''Pause'')) p4;
               p6 = (if ptype p5 = ''video''
                     then updBigPlay (setAttribute ''aria-label'' (Lit ''Pause'')) p5 else p5);
               p7 = afterPlayPause p6
           in dispatchEvent ''play'' p7))"

definition pause :: "player \<Rightarrow> player \<times> exn option" where
  "pause p =
     seq (invoke MethodPause [] p) (\<lambda>p2.
       let p3 = p2\<lparr>isPaused := Some True\<rparr>;
           p4 = updContainer (classReplace ''v-playing'' ''v-paused'') p3;
           p5 = updPlayPause (setAttribute ''aria-label'' (Lit ''Play'')) p4;
           p6 = (if ptype p5 = ''video''
                 then updBigPlay (setAttribute ''aria-label'' (Lit ''Play'')) p5 else p5);
           p7 = afterPlayPause p6
       in dispatchEvent ''pause'' p7)"

text \<open>
  \<^verbatim>\<open>Promise.all([this.getCurrentTime(), this.getDuration()])\<close> calls the two queries in
  this order while the array is built; a query that throws ends the call there. When it
  is the second one that throws, the promise of the first is left without a handler.
\<close>

definition onTimeUpdate :: "player \<Rightarrow> player \<times> exn option" where
  "onTimeUpdate p =
     (if truthy (opt (options p) ''time'') then
        (case getCurrentTime p of
           (p1, Inl e) \<Rightarrow> (p1, Some e)
         | (p1, Inr a) \<Rightarrow>
             (case getDuration p1 of
                (p2, Inl e) \<Rightarrow> (discard (p2, a), Some e)
              | (p2, Inr b) \<Rightarrow>
                  ok (discard (thenDo (promiseAll a b)
                    (\<lambda>(seconds, dur) q.
                       let current = Round (Val seconds);
                           width = Divide (Times current (Val (Fin 100))) (Val dur);
                           q1 = updProgressBar (\<lambda>e.
                                  setAttribute ''aria-valuenow'' (NumToStr (Round (Val seconds)))
                                    (setProperty ''--value'' (Cat (NumToStr width) (Lit ''%''))
                                       (e\<lparr>el_value := NumToStr width\<rparr>))) q;
                           q2 = updCurrentTime (\<lambda>e. e\<lparr>innerHTML := FormatVideoTime current\<rparr>) q1
                       in dispatchEvent ''timeupdate'' q2)
                    p2))))
      else ok p)"

definition onVideoEnded :: "player \<Rightarrow> player \<times> exn option" where
  "onVideoEnded p =
     seq (if truthy (opt (options p) ''loop'') then play p
          else ok (updContainer (classAdd ''v-firstStart'')
                     (updContainer (classReplace ''v-playing'' ''v-paused'') p)))
       (\<lambda>p1.
          let p2 = (if truthy (opt (options p1) ''poster'')
                    then updPoster (classAdd ''v-active'') p1 else p1);
              p3 = updProgressBar (\<lambda>e.
                     removeAttribute ''aria-valuenow''
                       (setProperty ''--value'' (Lit ''0%'') (e\<lparr>el_value := Lit ''0''\<rparr>))) p2;
              p4 = updCurrentTime (\<lambda>e. e\<lparr>innerHTML := Lit ''00:00''\<rparr>) p3
          in dispatchEvent ''ended'' p4)"

subsection \<open>Volume\<close>

definition setVolume :: "jsnum \<Rightarrow> player \<Rightarrow> player \<times> exn option" where
  "setVolume newVolume p =
     (let (clamped, p1) =
        (if num_gt newVolume 1 then (Fin 1, p)
         else if num_le newVolume 0 then
           (Fin 0, updVolume (classAdd ''v-pressed'') (p\<lparr>isMuted := Bool True\<rparr>))
         else (newVolume, updVolume (classRemove ''v-pressed'') (p\<lparr>isMuted := Bool False\<rparr>)))
      in seq (invoke MethodSetVolume [clamped] p1) (\<lambda>p2. dispatchEvent ''volumechange'' p2))"

text \<open>
  \<^verbatim>\<open>new Promise((resolve) => { this.methodGetVolume().then((volume) => resolve(volume)) })\<close>.
  An exception thrown by the executor rejects the new promise. The executor attaches a
  fulfilment callback only: when the provider's promise is rejected, \<^verbatim>\<open>resolve\<close> is never
  called, and the promise that \<^verbatim>\<open>then\<close> returned is rejected with no handler.
\<close>

definition getVolume :: "player \<Rightarrow> player \<times> jsnum promise" where
  "getVolume p =
     (case methodGetVolume p of
        (p1, Inl e) \<Rightarrow> (p1, Rejected e)
      | (p1, Inr (Fulfilled x)) \<Rightarrow> (p1, Fulfilled x)
      | (p1, Inr (Rejected e)) \<Rightarrow> (emit (UnhandledRejection e) p1, Never)
      | (p1, Inr Never) \<Rightarrow> (p1, Never))"

definition mute :: "player \<Rightarrow> player \<times> exn option" where
  "mute p =
     seq (invoke MethodMute [] p) (\<lambda>p1.
       dispatchEvent ''volumechange''
         (updVolume (classAdd ''v-pressed'') (p1\<lparr>isMuted := Bool True\<rparr>)))"

definition unMute :: "player \<Rightarrow> player \<times> exn option" where
  "unMute p =
     seq (invoke MethodUnMute [] p) (\<lambda>p1.
       dispatchEvent ''volumechange''
         (updVolume (classRemove ''v-pressed'') (p1\<lparr>isMuted := Bool False\<rparr>)))"

definition seekTo :: "jsnum \<Rightarrow> player \<Rightarrow> player \<times> exn option" where
  "seekTo newTime p = invoke MethodSeekTo [newTime] p"

subsection \<open>Fullscreen\<close>

text \<open>
  \<^verbatim>\<open>this.elements.container[requestFn]()\<close> is a \<^verbatim>\<open>TypeError\<close> when the container has no
  function of that name.
\<close>

definition requestFullscreen :: "player \<Rightarrow> player \<times> exn option" where
  "requestFullscreen p =
     (let fn = requestFn (supportFullScreen (Vlitejs p))
      in if fn \<in> m_truthy (media p) then
           (if fn \<in> containerFunctions p then
              (let p1 = emit (ContainerCall fn) p;
                   p2 = p1\<lparr>isFullScreen := True\<rparr>;
                   p3 = updContainer (classAdd ''v-fullscreenButton-display'') p2;
                   p4 = updFullscreen (classAdd ''v-pressed'') p3
               in dispatchEvent ''enterfullscreen'' p4)
            else (p, Some (TypeError ''this.elements.container[requestFn] is not a function'')))
         else ok p)"

text \<open>
  \<^verbatim>\<open>document[cancelFn]\<close> is truthy when it is a function, which is what it is in a
  browser that has it.
\<close>

definition exitFullscreen :: "bool \<Rightarrow> player \<Rightarrow> player \<times> exn option" where
  "exitFullscreen escKey p =
     (let fn = cancelFn (supportFullScreen (Vlitejs p))
      in if fn \<in> documentTruthy p then
           (let p1 = (if \<not> escKey then emit (DocumentCall fn) p else p);
                p2 = p1\<lparr>isFullScreen := False\<rparr>;
                p3 = updContainer (classRemove ''v-fullscreenButton-display'') p2;
                p4 = updFullscreen (classRemove ''v-pressed'') p3
            in dispatchEvent ''exitfullscreen'' p4)
         else ok p)"

section \<open>The control bar, as far as the player calls it\<close>

text \<open>
  \<^verbatim>\<open>render\<close> inserts the markup of \<^verbatim>\<open>Template({options, isMuted, type})\<close> into the
  container; \<^verbatim>\<open>cacheElements\<close> then looks the controls up in it.
\<close>

definition ControlBar_render :: "player \<Rightarrow> player" where
  "ControlBar_render p = emit Render p"

definition ControlBar_cacheElements :: "player \<Rightarrow> player" where
  "ControlBar_cacheElements p =
     (let t = template p (options p) (isMuted p) (ptype p);
          p1 = p\<lparr>elements := (elements p)\<lparr>controlBar := t_controlBar t\<rparr>\<rparr>
      in if controlBar (elements p1) \<noteq> None then
           (let p2 = p1\<lparr>elements := (elements p1)
                       \<lparr>playPause := t_playPause t,
                        progressBar := t_progressBar t,
                        currentTime := t_currentTime t,
                        duration := t_duration t,
                        volume := t_volume t,
                        fullscreen := t_fullscreen t\<rparr>\<rparr>
            in updVolume (setAttribute ''aria-label''
                 (if truthy (isMuted p2) then Lit ''Unmute'' else Lit ''Mute'')) p2)
         else p1)"

definition ControlBar_addEvents :: "player \<Rightarrow> player" where
  "ControlBar_addEvents p =
     (let p1 = (if progressBar (elements p) \<noteq> None
                then emit (AddEventListener ''progressBar'' ''input'') p else p)
      in if controlBar (elements p1) \<noteq> None
         then emit (AddEventListener ''controlBar'' ''click'') p1 else p1)"

definition ControlBar_init :: "player \<Rightarrow> player" where
  "ControlBar_init p = ControlBar_addEvents (ControlBar_cacheElements (ControlBar_render p))"

text \<open>
  \<^verbatim>\<open>onPlayerReady\<close> of the control bar calls \<^verbatim>\<open>getDuration\<close> and attaches the callback
  \<open>durationReady\<close> to its promise. It returns before the callback runs: the result is the
  synchronous part, and the job it leaves behind, which the caller runs after its own last
  statement.
\<close>

definition durationReady :: "jsnum \<Rightarrow> player \<Rightarrow> player \<times> exn option" where
  "durationReady dur q =
     (let q1 = updProgressBar (setAttribute ''aria-valuemax'' (NumToStr (Round (Val dur)))) q;
          q2 = updDuration (\<lambda>e. e\<lparr>innerHTML := FormatVideoTime (Val dur)\<rparr>) q1
      in ok q2)"

definition ControlBar_onPlayerReady ::
  "player \<Rightarrow> (player \<times> exn option) \<times> (player \<Rightarrow> player)" where
  "ControlBar_onPlayerReady p =
     (case getDuration p of
        (p1, Inl e) \<Rightarrow> ((p1, Some e), (\<lambda>q. q))
      | (p1, Inr d) \<Rightarrow> ((p1, None), (\<lambda>q. discard (thenDo d durationReady q))))"

definition ControlBar_removeEvents :: "player \<Rightarrow> player" where
  "ControlBar_removeEvents p =
     (let p1 = (if progressBar (elements p) \<noteq> None
                then emit (RemoveEventListener ''progressBar'' ''input'') p else p)
      in if controlBar (elements p1) \<noteq> None
         then emit (RemoveEventListener ''controlBar'' ''click'') p1 else p1)"

section \<open>Building, readiness, teardown\<close>

definition build :: "player \<Rightarrow> player \<times> exn option" where
  "build p =
     (let p1 = (if truthy (opt (options p) ''controls'') then ControlBar_init p else p)
      in invoke Init [] p1)"

text \<open>
  \<^verbatim>\<open>this.Vlitejs.onReady instanceof Function && this.Vlitejs.onReady.call(this, this)\<close>
\<close>

definition callOnReady :: "player \<Rightarrow> player \<times> exn option" where
  "callOnReady p =
     (case onReady (Vlitejs p) of
        Function f \<Rightarrow> (let p1 = emit (OnReady f) p in (p1, outcome p1 f))
      | NonFunction \<Rightarrow> ok p)"

definition onPlayerReady :: "player \<Rightarrow> player \<times> exn option" where
  "onPlayerReady p =
     seq (if truthy (opt (options p) ''autoplay'')
          then seq (if \<not> m_muted (media p) then mute p else ok p) play
          else ok p)
       (\<lambda>p1. seq (loading False p1)
          (\<lambda>p2.
             let (r, job) = (if truthy (opt (options p2) ''controls'')
                             then ControlBar_onPlayerReady p2 else (ok p2, (\<lambda>q. q)));
                 (p4, x) = seq r callOnReady
             in (job p4, x)))"

text \<open>
  \<^verbatim>\<open>Object.keys(this.customEvents).forEach((type) => delete this.customEvents[type])\<close>
  removes every own property.
\<close>

definition destroy :: "player \<Rightarrow> player \<times> exn option" where
  "destroy p =
     seq (pause p) (\<lambda>p1.
       let p2 = (if truthy (opt (options p1) ''controls'')
                 then ControlBar_removeEvents p1 else p1);
           p3 = p2\<lparr>customEvents := (customEvents p2)\<lparr>own := Map.empty\<rparr>\<rparr>
       in ok (emit RemoveContainer p3))"

section \<open>The host's volume keys\<close>

text \<open>
  \<^verbatim>\<open>this.player.getVolume().then((volume) => { this.player.setVolume(volume + 0.05) })\<close>
  and the same with \<^verbatim>\<open>volume - 0.05\<close>. The floating-point step is the parameter
  \<open>stepVolume\<close>.
\<close>

definition increaseVolume :: "(jsnum \<Rightarrow> jsnum) \<Rightarrow> player \<Rightarrow> player" where
  "increaseVolume stepVolume p =
     (case getVolume p of
        (p1, pr) \<Rightarrow> discard (thenDo pr (\<lambda>v q. setVolume (stepVolume v) q) p1))"

definition decreaseVolume :: "(jsnum \<Rightarrow> jsnum) \<Rightarrow> player \<Rightarrow> player" where
  "decreaseVolume stepVolume p =
     (case getVolume p of
        (p1, pr) \<Rightarrow> discard (thenDo pr (\<lambda>v q. setVolume (stepVolume v) q) p1))"

section \<open>Construction\<close>

definition Player_constructor ::
  "vlitejs \<Rightarrow> string \<Rightarrow> media \<Rightarrow> options \<Rightarrow> element \<Rightarrow> element option \<Rightarrow> element option \<Rightarrow>
   adapter \<Rightarrow> (options \<Rightarrow> jsval \<Rightarrow> string \<Rightarrow> controls) \<Rightarrow> string set \<Rightarrow> string set \<Rightarrow>
   (nat \<Rightarrow> exn option) \<Rightarrow> player" where
  "Player_constructor V ty m os cont bp po ad tpl cfs dts out =
     \<lparr>Vlitejs = V, ptype = ty, media = m, options = os,
      elements = \<lparr>container = cont, bigPlay = bp, poster = po, controlBar = None,
                  playPause = None, progressBar = None, currentTime = None, duration = None,
                  volume = None, fullscreen = None\<rparr>,
      isFullScreen = False,
      isMuted = opt os ''muted'',
      isPaused = None,
      delayAutoHide = 3000,
      customEvents = \<lparr>own = Map.empty, proto = None\<rparr>,
      adapter = ad, template = tpl, containerFunctions = cfs, documentTruthy = dts,
      outcome = out, trace = []\<rparr>"

definition DEFAULT_OPTIONS :: "string \<Rightarrow> options" where
  "DEFAULT_OPTIONS ty =
     (if ty = ''audio'' then
        [''autoplay'' \<mapsto> Bool False, ''controls'' \<mapsto> Bool True, ''playPause'' \<mapsto> Bool True,
         ''progressBar'' \<mapsto> Bool True, ''time'' \<mapsto> Bool True, ''volume'' \<mapsto> Bool True,
         ''loop'' \<mapsto> Bool False]
      else if ty = ''video'' then
        [''autoplay'' \<mapsto> Bool False, ''controls'' \<mapsto> Bool True, ''playPause'' \<mapsto> Bool True,
         ''progressBar'' \<mapsto> Bool True, ''time'' \<mapsto> Bool True, ''volume'' \<mapsto> Bool True,
         ''fullscreen'' \<mapsto> Bool True, ''poster'' \<mapsto> Null, ''bigPlay'' \<mapsto> Bool True,
         ''autoHide'' \<mapsto> Bool False, ''playsinline'' \<mapsto> Bool True, ''loop'' \<mapsto> Bool False,
         ''muted'' \<mapsto> Bool False]
      else Map.empty)"

text \<open>
  What the constructor takes from the page and from the modules it imports: the result of
  \<^verbatim>\<open>document.querySelector\<close>, of \<^verbatim>\<open>checkSupportFullScreen()\<close> and of
  \<^verbatim>\<open>getProviderInstance\<close>, \<^verbatim>\<open>capitalized\<close>, the nodes the poster and big-play templates
  render, the control bar's template, the functions of the wrapper, the truthy
  properties of the document, and what the functions of the host application do when
  they are called.
\<close>

record page =
  querySelector :: "string \<Rightarrow> media option"
  checkSupportFullScreen :: fullScreenSupport
  getProviderInstance :: "string \<Rightarrow> exn + adapter"
  capitalized :: "string \<Rightarrow> string"
  PosterTemplate :: element
  BigPlayTemplate :: element
  Template :: "options \<Rightarrow> jsval \<Rightarrow> string \<Rightarrow> controls"
  wrapperFunctions :: "string set"
  documentProperties :: "string set"
  hostFunctions :: "nat \<Rightarrow> exn option"

text \<open>The first argument: a string, a node, or any other value.\<close>

datatype selector = Selector string | Node media | OtherValue

text \<open>
  The second argument, destructured in the parameter list: \<^verbatim>\<open>options\<close> and \<^verbatim>\<open>onReady\<close>
  have no default, \<^verbatim>\<open>provider\<close> defaults to \<^verbatim>\<open>'html5'\<close> and \<^verbatim>\<open>plugins\<close> to \<^verbatim>\<open>[]\<close>.
\<close>

record config =
  c_options :: "options option"
  c_provider :: "string option"
  c_plugins :: "string list option"
  c_onReady :: callable

definition domAttributes :: "string list" where
  "domAttributes = [''autoplay'', ''playsinline'', ''muted'', ''loop'']"

text \<open>One round of the \<^verbatim>\<open>forEach\<close> over \<open>domAttributes\<close>.\<close>

definition syncAttribute :: "media \<times> options \<Rightarrow> string \<Rightarrow> media \<times> options" where
  "syncAttribute s item =
     (case s of (m, os) \<Rightarrow>
        if item \<in> m_attributes m then (m, os(item \<mapsto> Bool True))
        else if truthy (opt os item) then (m\<lparr>m_attributes := insert item (m_attributes m)\<rparr>, os)
        else (m, os))"

definition wrapElement :: "page \<Rightarrow> string \<Rightarrow> element" where
  "wrapElement pg ty =
     \<lparr>classList = {''v-vlite'', ''v-firstStart'', ''v-paused'', ''v-loading'',
                    ''v-style'' @ capitalized pg ty},
      attributes = [''tabindex'' \<mapsto> Lit ''0''],
      el_value = Lit [], style = Map.empty, innerHTML = Lit []\<rparr>"

definition addEvents :: "player \<Rightarrow> player" where
  "addEvents p =
     (let p1 =
        (if ptype p = ''video'' then
           (let q1 = emit (AddEventListener ''container'' ''click'') p;
                q2 = emit (AddEventListener ''container'' ''dblclick'') q1;
                q3 = (if autoHideGranted (Vlitejs q2)
                      then emit (AddEventListener ''container'' ''mousemove'') q2 else q2)
            in emit (AddEventListener ''window'' (changeEvent (supportFullScreen (Vlitejs q3)))) q3)
         else p)
      in emit (AddEventListener ''document'' ''keydown'') p1)"

text \<open>
  The constructor of \<^verbatim>\<open>Vlitejs\<close>, up to \<^verbatim>\<open>addEvents()\<close>; \<open>Inl\<close> is the exception it
  throws. The provider's class is the base class with the provider's overrides, and
  \<^verbatim>\<open>initializePlugins\<close>, the last statement, belongs to the plugins.
\<close>

definition Vlitejs_constructor :: "page \<Rightarrow> selector \<Rightarrow> config option \<Rightarrow> exn + player" where
  "Vlitejs_constructor pg sel cfg =
     (case cfg of
        None \<Rightarrow> Inl (TypeError ''Cannot destructure property of undefined'')
      | Some c \<Rightarrow>
     (case (case sel of
              Selector s \<Rightarrow> Inr (querySelector pg s)
            | Node n \<Rightarrow>
                if nodeKind n = VideoNode \<or> nodeKind n = AudioNode then Inr (Some n)
                else Inl (TypeError ''vlitejs :: The element or selector supplied is not valid.'')
            | OtherValue \<Rightarrow>
                Inl (TypeError ''vlitejs :: The element or selector supplied is not valid.'')) of
        Inl e \<Rightarrow> Inl e
      | Inr None \<Rightarrow> Inl (TypeError ''Cannot read properties of null'')
      | Inr (Some m) \<Rightarrow>
     (case c_options c of
        None \<Rightarrow> Inl (TypeError ''Cannot read properties of undefined'')
      | Some os \<Rightarrow>
          (let ty = (if nodeKind m = AudioNode then ''audio'' else ''video'');
               (m1, os1) = foldl syncAttribute (m, os) domAttributes;
               merged = DEFAULT_OPTIONS ty ++ os1;
               granted = (ty = ''video'' \<and> truthy (opt merged ''autoHide'')
                            \<and> truthy (opt merged ''controls''))
           in case getProviderInstance pg (case c_provider c of None \<Rightarrow> ''html5'' | Some x \<Rightarrow> x) of
                Inl e \<Rightarrow> Inl e
              | Inr ad \<Rightarrow>
                  if \<not> m_hasParent m1 then Inl (TypeError ''Cannot read properties of null'')
                  else
                    (let V = \<lparr>onReady = c_onReady c, v_isPaused = True, v_delayAutoHide = 3000,
                              supportFullScreen = checkSupportFullScreen pg,
                              autoHideGranted = granted,
                              plugins = (case c_plugins c of None \<Rightarrow> [] | Some xs \<Rightarrow> xs)\<rparr>;
                         po = (if ty = ''video'' \<and> truthy (opt merged ''poster'')
                               then Some (PosterTemplate pg) else None);
                         bp = (if ty = ''video'' \<and> truthy (opt merged ''bigPlay'')
                               then Some (BigPlayTemplate pg) else None);
                         p = Player_constructor V ty m1 merged (wrapElement pg ty) bp po ad
                               (Template pg) (wrapperFunctions pg) (documentProperties pg)
                               (hostFunctions pg)
                     in case build p of
                          (p1, Some e) \<Rightarrow> Inl e
                        | (p1, None) \<Rightarrow> Inr (addEvents p1))))))"

section \<open>The player's operations as commands\<close>

datatype command =
    Build
  | OnPlayerReady
  | On string callable
  | DispatchEvent string
  | Loading bool
  | OnTimeUpdate
  | OnVideoEnded
  | Play
  | Pause
  | AfterPlayPause
  | SetVolume jsnum
  | GetVolume
  | Mute
  | UnMute
  | SeekTo jsnum
  | RequestFullscreen
  | ExitFullscreen bool
  | Destroy
  | Invoke capability "jsnum list"
  | IncreaseVolume "jsnum \<Rightarrow> jsnum"
  | DecreaseVolume "jsnum \<Rightarrow> jsnum"
  | Provider adapter
  | Host "nat \<Rightarrow> exn option"

text \<open>
  The player after a command; an exception goes to the caller and the player stays as
  the call left it. \<open>Provider a\<close> is the provider's side changing what its queries answer,
  \<open>Host out\<close> the host application changing what its functions do.
\<close>

fun exec :: "player \<Rightarrow> command \<Rightarrow> player" where
  "exec p Build = fst (build p)"
| "exec p OnPlayerReady = fst (onPlayerReady p)"
| "exec p (On ty listener) = on ty listener p"
| "exec p (DispatchEvent ty) = fst (dispatchEvent ty p)"
| "exec p (Loading status) = fst (loading status p)"
| "exec p OnTimeUpdate = fst (onTimeUpdate p)"
| "exec p OnVideoEnded = fst (onVideoEnded p)"
| "exec p Play = fst (play p)"
| "exec p Pause = fst (pause p)"
| "exec p AfterPlayPause = afterPlayPause p"
| "exec p (SetVolume v) = fst (setVolume v p)"
| "exec p GetVolume = fst (getVolume p)"
| "exec p Mute = fst (mute p)"
| "exec p UnMute = fst (unMute p)"
| "exec p (SeekTo t) = fst (seekTo t p)"
| "exec p RequestFullscreen = fst (requestFullscreen p)"
| "exec p (ExitFullscreen escKey) = fst (exitFullscreen escKey p)"
| "exec p Destroy = fst (destroy p)"
| "exec p (Invoke m args) = fst (invoke m args p)"
| "exec p (IncreaseVolume f) = increaseVolume f p"
| "exec p (DecreaseVolume f) = decreaseVolume f p"
| "exec p (Provider a) = p\<lparr>adapter := a\<rparr>"
| "exec p (Host out) = p\<lparr>outcome := out\<rparr>"

definition run :: "player \<Rightarrow> command list \<Rightarrow> player" where
  "run p cs = foldl exec p cs"

section \<open>Notions used to state the properties\<close>

text \<open>The listeners that \<^verbatim>\<open>dispatchEvent(ty)\<close> finds: the array under the own key \<open>ty\<close>.\<close>

definition registered :: "player \<Rightarrow> string \<Rightarrow> nat list" where
  "registered p ty = (case own (customEvents p) ty of None \<Rightarrow> [] | Some ls \<Rightarrow> ls)"

text \<open>
  Of a list of functions called one after the other, those that are called: all up to
  the first that throws, and that one; and the exception that ends the loop, if any.
\<close>

fun called :: "(nat \<Rightarrow> exn option) \<Rightarrow> nat list \<Rightarrow> nat list" where
  "called out [] = []"
| "called out (f # fs) = (case out f of None \<Rightarrow> f # called out fs | Some e \<Rightarrow> [f])"

fun thrown :: "(nat \<Rightarrow> exn option) \<Rightarrow> nat list \<Rightarrow> exn option" where
  "thrown out [] = None"
| "thrown out (f # fs) = (case out f of None \<Rightarrow> thrown out fs | Some e \<Rightarrow> Some e)"

text \<open>The same for the listeners of a kind on a player.\<close>

definition ran :: "player \<Rightarrow> string \<Rightarrow> nat list" where
  "ran p ty = called (outcome p) (registered p ty)"

definition raised :: "player \<Rightarrow> string \<Rightarrow> exn option" where
  "raised p ty = thrown (outcome p) (registered p ty)"

text \<open>
  A list of calls \<^verbatim>\<open>on(k, l)\<close>, and the functions among them that were registered for the
  kind \<open>ty\<close>, in the order of the calls.
\<close>

definition register :: "player \<Rightarrow> (string \<times> callable) list \<Rightarrow> player" where
  "register p regs = foldl (\<lambda>q (k, l). on k l q) p regs"

definition listenersFor :: "string \<Rightarrow> (string \<times> callable) list \<Rightarrow> nat list" where
  "listenersFor ty regs =
     concat (map (\<lambda>(k, l). case l of Function f \<Rightarrow> if k = ty then [f] else [] | NonFunction \<Rightarrow> []) regs)"

text \<open>A finite number between \<open>0\<close> and \<open>1\<close>.\<close>

definition inUnitInterval :: "jsnum \<Rightarrow> bool" where
  "inUnitInterval c = (case c of Fin x \<Rightarrow> 0 \<le> x \<and> x \<le> 1 | _ \<Rightarrow> False)"

text \<open>The arguments of the calls of \<^verbatim>\<open>methodSetVolume\<close> in a trace.\<close>

fun forwardedVolumes :: "effect list \<Rightarrow> jsnum list" where
  "forwardedVolumes [] = []"
| "forwardedVolumes (Call MethodSetVolume args # xs) = args @ forwardedVolumes xs"
| "forwardedVolumes (x # xs) = forwardedVolumes xs"



section \<open>A page and players to run the model on\<close>

text \<open>
  A page with one video element and no attribute on it, a provider that overrides every
  capability of the contract, templates that render each control the options ask for, and
  host functions that return normally.
\<close>

definition blank :: element where
  "blank = \<lparr>classList = {}, attributes = Map.empty, el_value = Lit [], style = Map.empty,
            innerHTML = Lit []\<rparr>"

definition html5 :: adapter where
  "html5 = \<lparr>provided = {Init, WaitUntilVideoIsReady, GetInstance, GetCurrentTime, MethodSeekTo,
                         GetDuration, MethodPlay, MethodPause, MethodSetVolume, MethodGetVolume,
                         MethodMute, MethodUnMute},
            currentTimeResult = Fulfilled (Fin 10),
            durationResult = Fulfilled (Fin 200),
            volumeResult = Fulfilled (Fin (1/2))\<rparr>"

definition exampleVideo :: media where
  "exampleVideo = \<lparr>nodeKind = VideoNode, m_attributes = {}, m_muted = False,
                    m_truthy = {''requestFullscreen''}, m_hasParent = True\<rparr>"

definition examplePage :: page where
  "examplePage =
     \<lparr>querySelector = (\<lambda>s. if s = ''#player'' then Some exampleVideo else None),
      checkSupportFullScreen =
        \<lparr>requestFn = ''requestFullscreen'', cancelFn = ''exitFullscreen'',
         changeEvent = ''fullscreenchange'', isFullScreenName = ''fullscreenElement''\<rparr>,
      getProviderInstance =
        (\<lambda>name. if name = ''html5'' then Inr html5 else Inl (TypeError ''no such provider'')),
      capitalized = (\<lambda>s. if s = ''video'' then ''Video'' else if s = ''audio'' then ''Audio'' else s),
      PosterTemplate = blank\<lparr>classList := {''v-poster'', ''v-active''}\<rparr>,
      BigPlayTemplate = blank\<lparr>classList := {''v-bigPlay''}\<rparr>,
      Template = (\<lambda>os muted ty.
        \<lparr>t_controlBar = Some (blank\<lparr>classList := {''v-controlBar''}\<rparr>),
         t_playPause = (if truthy (opt os ''playPause'')
                        then Some (blank\<lparr>classList := {''v-playPauseButton''}\<rparr>) else None),
         t_progressBar = (if truthy (opt os ''progressBar'')
                          then Some (blank\<lparr>classList := {''v-progressBar''}\<rparr>) else None),
         t_currentTime = (if truthy (opt os ''time'')
                          then Some (blank\<lparr>classList := {''v-currentTime''}\<rparr>) else None),
         t_duration = (if truthy (opt os ''time'')
                       then Some (blank\<lparr>classList := {''v-duration''}\<rparr>) else None),
         t_volume = (if truthy (opt os ''volume'')
                     then Some (blank\<lparr>classList := {''v-volumeButton''}\<rparr>) else None),
         t_fullscreen = (if ty = ''video'' \<and> truthy (opt os ''fullscreen'')
                         then Some (blank\<lparr>classList := {''v-fullscreenButton''}\<rparr>) else None)\<rparr>),
      wrapperFunctions = {''requestFullscreen''},
      documentProperties = {''exitFullscreen''},
      hostFunctions = (\<lambda>f. None)\<rparr>"

definition exampleConfig :: "options \<Rightarrow> config" where
  "exampleConfig os = \<lparr>c_options = Some os, c_provider = None, c_plugins = None,
                        c_onReady = Function 0\<rparr>"

text \<open>\<^verbatim>\<open>new Vlitejs('#player', {options: os, onReady})\<close> on that page, when it returns.\<close>

definition constructed :: "options \<Rightarrow> player option" where
  "constructed os =
     (case Vlitejs_constructor examplePage (Selector ''#player'') (Some (exampleConfig os)) of
        Inl e \<Rightarrow> None
      | Inr p \<Rightarrow> Some p)"

definition loopOptions :: options where
  "loopOptions = [''loop'' \<mapsto> Bool True, ''poster'' \<mapsto> Str ''poster.jpg'']"

definition autoplayOptions :: options where
  "autoplayOptions = [''autoplay'' \<mapsto> Bool True]"

text \<open>
  The player the constructor returns on that page, given the merged options, the
  attributes of the video element and the poster node.
\<close>

definition built :: "options \<Rightarrow> string set \<Rightarrow> element option \<Rightarrow> player" where
  "built os attrs po =
     \<lparr>Vlitejs =
        \<lparr>onReady = Function 0, v_isPaused = True, v_delayAutoHide = 3000,
         supportFullScreen = checkSupportFullScreen examplePage,
         autoHideGranted = False, plugins = []\<rparr>,
      ptype = ''video'',
      media = exampleVideo\<lparr>m_attributes := attrs\<rparr>,
      options = os,
      elements =
        \<lparr>container = wrapElement examplePage ''video'',
         bigPlay = Some (BigPlayTemplate examplePage),
         poster = po,
         controlBar = Some (blank\<lparr>classList := {''v-controlBar''}\<rparr>),
         playPause = Some (blank\<lparr>classList := {''v-playPauseButton''}\<rparr>),
         progressBar = Some (blank\<lparr>classList := {''v-progressBar''}\<rparr>),
         currentTime = Some (blank\<lparr>classList := {''v-currentTime''}\<rparr>),
         duration = Some (blank\<lparr>classList := {''v-duration''}\<rparr>),
         volume = Some (setAttribute ''aria-label'' (Lit ''Mute'')
                          (blank\<lparr>classList := {''v-volumeButton''}\<rparr>)),
         fullscreen = Some (blank\<lparr>classList := {''v-fullscreenButton''}\<rparr>)\<rparr>,
      isFullScreen = False,
      isMuted = Bool False,
      isPaused = None,
      delayAutoHide = 3000,
      customEvents = \<lparr>own = Map.empty, proto = None\<rparr>,
      adapter = html5,
      template = Template examplePage,
      containerFunctions = {''requestFullscreen''},
      documentTruthy = {''exitFullscreen''},
      outcome = hostFunctions examplePage,
      trace =
        [Render, AddEventListener ''progressBar'' ''input'',
         AddEventListener ''controlBar'' ''click'', Call Init [],
         AddEventListener ''container'' ''click'',
         AddEventListener ''container'' ''dblclick'',
         AddEventListener ''window'' ''fullscreenchange'',
         AddEventListener ''document'' ''keydown'']\<rparr>"

definition defaultPlayer :: player where
  "defaultPlayer = built (DEFAULT_OPTIONS ''video'') {} None"

definition loopPlayer :: player where
  "loopPlayer =
     built (DEFAULT_OPTIONS ''video'' ++ loopOptions) {''loop''} (Some (PosterTemplate examplePage))"

definition autoplayPlayer :: player where
  "autoplayPlayer = built (DEFAULT_OPTIONS ''video'' ++ autoplayOptions) {''autoplay''} None"

text \<open>A looping player in the middle of playback.\<close>

definition midLoop :: player where
  "midLoop = run loopPlayer [Play, OnTimeUpdate]"

text \<open>A provider whose duration and volume queries are rejected.\<close>

definition failing :: adapter where
  "failing = html5\<lparr>durationResult := Rejected (Error ''network''),
                    volumeResult := Rejected (Error ''network'')\<rparr>"

definition offline :: player where
  "offline = exec defaultPlayer (Provider failing)"

text \<open>A provider class that overrides nothing.\<close>

definition abstract :: adapter where
  "abstract = \<lparr>provided = {}, currentTimeResult = Never, durationResult = Never,
               volumeResult = Never\<rparr>"

definition abstractPlayer :: player where
  "abstractPlayer = exec defaultPlayer (Provider abstract)"

text \<open>A video element without the fullscreen request function.\<close>

definition noFullscreen :: player where
  "noFullscreen = defaultPlayer\<lparr>media := exampleVideo\<lparr>m_truthy := {}\<rparr>\<rparr>"

text \<open>
  A step of the volume keys on the finite volumes, without the rounding of the
  floating-point sum.
\<close>

definition volumeUp :: "jsnum \<Rightarrow> jsnum" where
  "volumeUp v = (case v of Fin x \<Rightarrow> Fin (x + 1/20) | _ \<Rightarrow> v)"

text \<open>Three registrations, two of them for \<^verbatim>\<open>timeupdate\<close>.\<close>

definition registrations :: "(string \<times> callable) list" where
  "registrations =
     [(''timeupdate'', Function 1), (''play'', Function 2), (''timeupdate'', Function 3)]"

text \<open>A host application whose function \<open>1\<close> throws, and the player with these listeners.\<close>

definition touchy :: "nat \<Rightarrow> exn option" where
  "touchy f = (if f = 1 then Some (Error ''listener'') else None)"

definition heckled :: player where
  "heckled = exec (register defaultPlayer registrations) (Host touchy)"

section \<open>Auxiliary facts\<close>

lemma forEachListener_eq:
  "forEachListener ty ls p =
     (p\<lparr>trace := trace p @ map (Run ty) (called (outcome p) ls)\<rparr>, thrown (outcome p) ls)"
proof (induction ls arbitrary: p)
  case Nil
  show ?case by simp
next
  case (Cons f fs)
  show ?case
    by (cases "outcome p f") (simp_all add: Cons.IH emit_def Let_def)
qed

lemma dispatchEvent_eq:
  "dispatchEvent ty p =
     (p\<lparr>trace := trace p @ Dispatch ty # map (Run ty) (ran p ty)\<rparr>, raised p ty)"
  by (simp add: dispatchEvent_def forEachListener_eq ran_def raised_def registered_def
        emit_def Let_def split: option.splits)

lemma thrown_None_called: "thrown out ls = None \<Longrightarrow> called out ls = ls"
  by (induction ls) (auto split: option.splits)

lemma raised_None_ran: "raised p ty = None \<Longrightarrow> ran p ty = registered p ty"
  by (simp add: raised_def ran_def thrown_None_called)

lemma registered_Nil: "registered p ty = [] \<Longrightarrow> ran p ty = [] \<and> raised p ty = None"
  by (simp add: ran_def raised_def)

lemma on_frame:
  "trace (on ty l p) = trace p"
  "outcome (on ty l p) = outcome p"
  by (simp_all add: on_def Let_def split: callable.splits)

lemma registered_on:
  "ty \<noteq> ''__proto__'' \<Longrightarrow>
   registered (on k l p) ty =
     registered p ty @ (case l of Function f \<Rightarrow> if k = ty then [f] else [] | NonFunction \<Rightarrow> [])"
  by (auto simp: on_def registered_def Let_def hasOwn_def setProp_def pushProp_def
           split: callable.splits option.splits)

lemma registered_register:
  "ty \<noteq> ''__proto__'' \<Longrightarrow> registered (register p regs) ty = registered p ty @ listenersFor ty regs"
proof (induction regs arbitrary: p)
  case Nil
  then show ?case by (simp add: register_def listenersFor_def)
next
  case (Cons r regs)
  obtain k l where r: "r = (k, l)" by (cases r)
  have "register p (r # regs) = register (on k l p) regs"
    by (simp add: register_def r)
  then show ?case
    using Cons.IH[OF Cons.prems, of "on k l p"] registered_on[OF Cons.prems, of k l p]
    by (simp add: listenersFor_def r)
qed

lemma register_frame:
  "trace (register p regs) = trace p"
  "outcome (register p regs) = outcome p"
  by (induction regs arbitrary: p) (simp_all add: register_def on_frame split: prod.splits)

lemma forwardedVolumes_append:
  "forwardedVolumes (xs @ ys) = forwardedVolumes xs @ forwardedVolumes ys"
  by (induction xs rule: forwardedVolumes.induct) simp_all

lemma forwardedVolumes_Run: "forwardedVolumes (map (Run ty) ls) = []"
  by (induction ls) simp_all

lemma count_Dispatch_Run: "count_list (map (Run ty) ls) (Dispatch k) = 0"
  by (induction ls) simp_all

lemma seq_ok [simp]: "seq (ok p) f = f p"
  by (simp add: seq_def ok_def)

lemma seq_None [simp]: "seq (p, None) f = f p"
  by (simp add: seq_def)

lemma seq_Some [simp]: "seq (p, Some e) f = (p, Some e)"
  by (simp add: seq_def)

lemma invoke_provided:
  "m \<in> provided (adapter p) \<Longrightarrow> invoke m args p = (p\<lparr>trace := trace p @ [Call m args]\<rparr>, None)"
  by (simp add: invoke_def emit_def Let_def)

lemma invoke_base:
  "m \<notin> provided (adapter p) \<Longrightarrow> invoke m args p = (p\<lparr>trace := trace p @ [Call m args]\<rparr>, Some (base m))"
  by (simp add: invoke_def emit_def Let_def)

lemma ran_frame [simp]:
  "ran (p\<lparr>trace := t\<rparr>) ty = ran p ty"
  "ran (p\<lparr>isMuted := v\<rparr>) ty = ran p ty"
  "ran (p\<lparr>isPaused := b\<rparr>) ty = ran p ty"
  "ran (p\<lparr>isFullScreen := c\<rparr>) ty = ran p ty"
  "ran (p\<lparr>elements := es\<rparr>) ty = ran p ty"
  "raised (p\<lparr>trace := t\<rparr>) ty = raised p ty"
  "raised (p\<lparr>isMuted := v\<rparr>) ty = raised p ty"
  "raised (p\<lparr>isPaused := b\<rparr>) ty = raised p ty"
  "raised (p\<lparr>isFullScreen := c\<rparr>) ty = raised p ty"
  "raised (p\<lparr>elements := es\<rparr>) ty = raised p ty"
  by (simp_all add: ran_def raised_def registered_def)

lemma setVolume_eq:
  assumes "MethodSetVolume \<in> provided (adapter p)"
  shows "setVolume v p =
     (let c = (if num_gt v 1 then Fin 1 else if num_le v 0 then Fin 0 else v);
          p1 = (if num_gt v 1 then p
                else if num_le v 0 then updVolume (classAdd ''v-pressed'') (p\<lparr>isMuted := Bool True\<rparr>)
                else updVolume (classRemove ''v-pressed'') (p\<lparr>isMuted := Bool False\<rparr>))
      in (p1\<lparr>trace := trace p @ [Call MethodSetVolume [c], Dispatch ''volumechange''] @
                 map (Run ''volumechange'') (ran p ''volumechange'')\<rparr>,
          raised p ''volumechange''))"
  using assms
  by (simp add: setVolume_def invoke_provided dispatchEvent_eq updVolume_def Let_def)

lemma afterPlayPause_frame:
  "isPaused (afterPlayPause p) = isPaused p"
  "options (afterPlayPause p) = options p"
  "ptype (afterPlayPause p) = ptype p"
  "adapter (afterPlayPause p) = adapter p"
  "outcome (afterPlayPause p) = outcome p"
  "container (elements (afterPlayPause p)) = container (elements p)"
  "poster (elements (afterPlayPause p)) = poster (elements p)"
  "progressBar (elements (afterPlayPause p)) = progressBar (elements p)"
  "currentTime (elements (afterPlayPause p)) = currentTime (elements p)"
  "customEvents (afterPlayPause p) = customEvents p"
  by (simp_all add: afterPlayPause_def stopAutoHideTimer_def startAutoHideTimer_def emit_def
        updControlBar_def Let_def)

lemma afterPlayPause_listeners [simp]:
  "ran (afterPlayPause p) ty = ran p ty"
  "raised (afterPlayPause p) ty = raised p ty"
  by (simp_all add: ran_def raised_def registered_def afterPlayPause_frame)

lemma afterPlayPause_trace:
  "\<exists>xs. trace (afterPlayPause p) = trace p @ xs \<and> set xs \<subseteq> {ClearTimeout, SetTimeout}"
  by (auto simp: afterPlayPause_def stopAutoHideTimer_def startAutoHideTimer_def emit_def
        updControlBar_def Let_def)

lemma play_calls_methodPlay:
  "\<exists>xs. trace (fst (play p)) = trace p @ Call MethodPlay [] # xs"
proof (cases "MethodPlay \<in> provided (adapter p)")
  case False
  then show ?thesis
    by (simp add: play_def Let_def invoke_base updContainer_def updPoster_def)
next
  case True
  show ?thesis
  proof -
    obtain q where q: "play p = dispatchEvent ''play'' (afterPlayPause q)"
      and tq: "trace q = trace p @ [Call MethodPlay []]"
      using True
      by (simp add: play_def Let_def invoke_provided updContainer_def updPoster_def updBigPlay_def updPlayPause_def)
    obtain xs where "trace (afterPlayPause q) = trace q @ xs"
      using afterPlayPause_trace by blast
    then show ?thesis
      by (simp add: q dispatchEvent_eq tq)
  qed
qed

lemma play_provided:
  assumes "MethodPlay \<in> provided (adapter p)"
  shows "snd (play p) = raised p ''play''"
    and "isPaused (fst (play p)) = Some False"
    and "options (fst (play p)) = options p"
    and "progressBar (elements (fst (play p))) = progressBar (elements p)"
    and "currentTime (elements (fst (play p))) = currentTime (elements p)"
    and "(poster (elements (fst (play p))) = None) = (poster (elements p) = None)"
    and "''v-firstStart'' \<notin> classList (container (elements (fst (play p))))"
    and "''v-paused'' \<notin> classList (container (elements (fst (play p))))"
    and "customEvents (fst (play p)) = customEvents p"
    and "outcome (fst (play p)) = outcome p"
    and "adapter (fst (play p)) = adapter p"
  using assms
  by (simp_all add: play_def Let_def invoke_provided updContainer_def updPoster_def
        updBigPlay_def updPlayPause_def dispatchEvent_eq afterPlayPause_frame
        classRemove_def classReplace_def ran_def raised_def registered_def)




lemma isPaused_dispatchEvent [simp]: "isPaused (fst (dispatchEvent ty p)) = isPaused p"
  by (simp add: dispatchEvent_eq)

lemma isPaused_emit [simp]: "isPaused (emit x p) = isPaused p"
  by (simp add: emit_def)

lemma isPaused_upd [simp]:
  "isPaused (updContainer f p) = isPaused p"
  "isPaused (updBigPlay f p) = isPaused p"
  "isPaused (updPoster f p) = isPaused p"
  "isPaused (updControlBar f p) = isPaused p"
  "isPaused (updPlayPause f p) = isPaused p"
  "isPaused (updProgressBar f p) = isPaused p"
  "isPaused (updCurrentTime f p) = isPaused p"
  "isPaused (updDuration f p) = isPaused p"
  "isPaused (updVolume f p) = isPaused p"
  "isPaused (updFullscreen f p) = isPaused p"
  by (simp_all add: updContainer_def updBigPlay_def updPoster_def updControlBar_def
        updPlayPause_def updProgressBar_def updCurrentTime_def updDuration_def updVolume_def
        updFullscreen_def)

lemma isPaused_invoke [simp]: "isPaused (fst (invoke m args p)) = isPaused p"
  by (simp add: invoke_def Let_def)

lemma isPaused_query [simp]: "isPaused (fst (query m r p)) = isPaused p"
  by (simp add: query_def Let_def)

lemma isPaused_discard [simp]: "isPaused (discard (p, pr)) = isPaused p"
  by (cases pr) (simp_all add: discard_def)

lemma isPaused_seq_frame:
  assumes "isPaused (fst r) = x" and "\<And>q. isPaused q = x \<Longrightarrow> isPaused (fst (f q)) = x"
  shows "isPaused (fst (seq r f)) = x"
proof (cases r)
  case (Pair q e)
  then show ?thesis using assms by (cases e) (simp_all add: seq_def)
qed

lemma isPaused_then_frame:
  assumes "\<And>x q. isPaused (fst (callback x q)) = isPaused q"
  shows "isPaused (discard (thenDo pr callback p)) = isPaused p"
proof (cases pr)
  case (Fulfilled x)
  obtain q e where c: "callback x p = (q, e)" by (cases "callback x p")
  then have "isPaused q = isPaused p" using assms[of x p] by simp
  then show ?thesis
    using Fulfilled c by (cases e) (simp_all add: thenDo_def)
next
  case (Rejected e)
  then show ?thesis by (simp add: thenDo_def)
next
  case Never
  then show ?thesis by (simp add: thenDo_def)
qed

lemma isPaused_afterPlayPause [simp]: "isPaused (afterPlayPause p) = isPaused p"
  by (rule afterPlayPause_frame)

lemma isPaused_setVolume [simp]: "isPaused (fst (setVolume v p)) = isPaused p"
proof -
  have "isPaused (fst (seq (invoke MethodSetVolume [c] q)
          (\<lambda>p2. dispatchEvent ''volumechange'' p2))) = isPaused q" for c q
    by (rule isPaused_seq_frame) simp_all
  then show ?thesis
    by (simp add: setVolume_def Let_def)
qed

lemma isPaused_mute [simp]: "isPaused (fst (mute p)) = isPaused p"
  unfolding mute_def by (rule isPaused_seq_frame) simp_all

lemma isPaused_unMute [simp]: "isPaused (fst (unMute p)) = isPaused p"
  unfolding unMute_def by (rule isPaused_seq_frame) simp_all

lemma isPaused_seekTo [simp]: "isPaused (fst (seekTo t p)) = isPaused p"
  by (simp add: seekTo_def)

lemma isPaused_requestFullscreen [simp]: "isPaused (fst (requestFullscreen p)) = isPaused p"
  by (simp add: requestFullscreen_def Let_def ok_def)

lemma isPaused_exitFullscreen [simp]: "isPaused (fst (exitFullscreen k p)) = isPaused p"
  by (simp add: exitFullscreen_def Let_def ok_def)

lemma isPaused_getVolume [simp]: "isPaused (fst (getVolume p)) = isPaused p"
proof -
  obtain p1 r where m: "methodGetVolume p = (p1, r)" by (cases "methodGetVolume p")
  have "isPaused (fst (methodGetVolume p)) = isPaused p"
    by (simp add: methodGetVolume_def)
  then have "isPaused p1 = isPaused p" by (simp add: m)
  then show ?thesis
    by (simp add: getVolume_def m split: sum.splits promise.splits)
qed

lemma isPaused_increaseVolume [simp]: "isPaused (increaseVolume f p) = isPaused p"
proof -
  obtain p1 pr where g: "getVolume p = (p1, pr)" by (cases "getVolume p")
  have "isPaused p1 = isPaused p" using isPaused_getVolume[of p] by (simp add: g)
  moreover have "isPaused (discard (thenDo pr (\<lambda>v q. setVolume (f v) q) p1)) = isPaused p1"
    by (rule isPaused_then_frame) simp
  ultimately show ?thesis
    by (simp add: increaseVolume_def g)
qed

lemma isPaused_decreaseVolume [simp]: "isPaused (decreaseVolume f p) = isPaused p"
proof -
  obtain p1 pr where g: "getVolume p = (p1, pr)" by (cases "getVolume p")
  have "isPaused p1 = isPaused p" using isPaused_getVolume[of p] by (simp add: g)
  moreover have "isPaused (discard (thenDo pr (\<lambda>v q. setVolume (f v) q) p1)) = isPaused p1"
    by (rule isPaused_then_frame) simp
  ultimately show ?thesis
    by (simp add: decreaseVolume_def g)
qed

lemma isPaused_onTimeUpdate [simp]: "isPaused (fst (onTimeUpdate p)) = isPaused p"
proof -
  obtain p1 r1 where c: "getCurrentTime p = (p1, r1)" by (cases "getCurrentTime p")
  obtain p2 r2 where d: "getDuration p1 = (p2, r2)" by (cases "getDuration p1")
  have "isPaused (fst (getCurrentTime p)) = isPaused p"
    by (simp add: getCurrentTime_def)
  then have k1: "isPaused p1 = isPaused p" by (simp add: c)
  have "isPaused (fst (getDuration p1)) = isPaused p1"
    by (simp add: getDuration_def)
  then have k2: "isPaused p2 = isPaused p" by (simp add: d k1)
  have "isPaused (discard (thenDo pr callback p2)) = isPaused p2"
    if "\<And>x q. isPaused (fst (callback x q)) = isPaused q"
    for pr :: "(jsnum \<times> jsnum) promise" and callback
    using that by (rule isPaused_then_frame)
  then show ?thesis
    using k1 k2
    by (simp add: onTimeUpdate_def c d Let_def ok_def split: sum.splits prod.splits)
qed

lemma isPaused_loading [simp]: "isPaused (fst (loading s p)) = isPaused p"
  by (simp add: loading_def Vlitejs_loading_def)

lemma isPaused_on [simp]: "isPaused (on ty l p) = isPaused p"
  by (simp add: on_def Let_def split: callable.splits)

lemma isPaused_ControlBar [simp]:
  "isPaused (ControlBar_init p) = isPaused p"
  "isPaused (ControlBar_removeEvents p) = isPaused p"
  by (simp_all add: ControlBar_init_def ControlBar_addEvents_def ControlBar_cacheElements_def
        ControlBar_render_def ControlBar_removeEvents_def Let_def)

lemma isPaused_build [simp]: "isPaused (fst (build p)) = isPaused p"
  by (simp add: build_def Let_def)

lemma isPaused_durationReady [simp]: "isPaused (fst (durationReady d q)) = isPaused q"
  by (simp add: durationReady_def Let_def ok_def)

lemma isPaused_callOnReady [simp]: "isPaused (fst (callOnReady p)) = isPaused p"
  by (simp add: callOnReady_def Let_def ok_def split: callable.splits)












lemma ended_tail:
  fixes p1 :: player
  defines "p2 \<equiv> (if truthy (opt (options p1) ''poster'')
                    then updPoster (classAdd ''v-active'') p1 else p1)"
  defines "p3 \<equiv> updProgressBar (\<lambda>e.
                     removeAttribute ''aria-valuenow''
                       (setProperty ''--value'' (Lit ''0%'') (e\<lparr>el_value := Lit ''0''\<rparr>))) p2"
  defines "p4 \<equiv> updCurrentTime (\<lambda>e. e\<lparr>innerHTML := Lit ''00:00''\<rparr>) p3"
  defines "q \<equiv> fst (dispatchEvent ''ended'' p4)"
  shows "map_option el_value (progressBar (elements q)) =
           map_option (\<lambda>_. Lit ''0'') (progressBar (elements p1))"
    and "map_option innerHTML (currentTime (elements q)) =
           map_option (\<lambda>_. Lit ''00:00'') (currentTime (elements p1))"
    and "trace q = trace p1 @ Dispatch ''ended'' # map (Run ''ended'') (ran p1 ''ended'')"
    and "container (elements q) = container (elements p1)"
    and "snd (dispatchEvent ''ended'' p4) = raised p1 ''ended''"
  unfolding q_def p4_def p3_def p2_def
  by (simp_all add: dispatchEvent_eq updCurrentTime_def updProgressBar_def updPoster_def
        removeAttribute_def setProperty_def ran_def raised_def registered_def
        option.map_comp comp_def)

lemma onTimeUpdate_rejected_eq:
  assumes "truthy (opt (options p) ''time'')"
    and "GetCurrentTime \<in> provided (adapter p)" and "GetDuration \<in> provided (adapter p)"
    and "promiseAll (currentTimeResult (adapter p)) (durationResult (adapter p)) = Rejected e"
  shows "onTimeUpdate p =
           (p\<lparr>trace := trace p @
               [Call GetCurrentTime [], Call GetDuration [], UnhandledRejection e]\<rparr>, None)"
  using assms
  by (simp add: onTimeUpdate_def getCurrentTime_def getDuration_def query_def Let_def emit_def
        thenDo_def discard_def ok_def)

lemma promiseAll_rejected:
  "a = Rejected e1 \<or> b = Rejected e2 \<Longrightarrow>
   \<exists>e. promiseAll a b = Rejected e \<and> (a = Rejected e \<or> b = Rejected e)"
  by (cases a; cases b) auto

lemma getVolume_rejected_eq:
  assumes "MethodGetVolume \<in> provided (adapter p)" and "volumeResult (adapter p) = Rejected e"
  shows "getVolume p =
           (p\<lparr>trace := trace p @ [Call MethodGetVolume [], UnhandledRejection e]\<rparr>, Never)"
  using assms
  by (simp add: getVolume_def methodGetVolume_def query_def Let_def emit_def)

lemma play_listeners:
  "MethodPlay \<in> provided (adapter p) \<Longrightarrow> ran (fst (play p)) ty = ran p ty"
  "MethodPlay \<in> provided (adapter p) \<Longrightarrow> raised (fst (play p)) ty = raised p ty"
  by (simp_all add: ran_def raised_def registered_def play_provided(9,10))

lemma onVideoEnded_loop_facts:
  assumes "truthy (opt (options p) ''loop'')" and "MethodPlay \<in> provided (adapter p)"
    and "raised p ''play'' = None"
  shows "snd (onVideoEnded p) = raised p ''ended''"
    and "''v-firstStart'' \<notin> classList (container (elements (fst (onVideoEnded p))))"
    and "''v-paused'' \<notin> classList (container (elements (fst (onVideoEnded p))))"
    and "map_option el_value (progressBar (elements (fst (onVideoEnded p)))) =
           map_option (\<lambda>_. Lit ''0'') (progressBar (elements p))"
    and "map_option innerHTML (currentTime (elements (fst (onVideoEnded p)))) =
           map_option (\<lambda>_. Lit ''00:00'') (currentTime (elements p))"
    and "trace (fst (onVideoEnded p)) =
           trace (fst (play p)) @ Dispatch ''ended'' # map (Run ''ended'') (ran p ''ended'')"
proof -
  obtain q where q: "play p = (q, None)"
    using play_provided(1)[OF assms(2)] assms(3) by (cases "play p") simp
  have fq: "fst (play p) = q" by (simp add: q)
  note pp = play_provided[OF assms(2), unfolded fq]
  note pl = play_listeners[OF assms(2), unfolded fq]
  have e: "onVideoEnded p =
       dispatchEvent ''ended''
          (updCurrentTime (\<lambda>e. e\<lparr>innerHTML := Lit ''00:00''\<rparr>)
             (updProgressBar (\<lambda>e. removeAttribute ''aria-valuenow''
                       (setProperty ''--value'' (Lit ''0%'') (e\<lparr>el_value := Lit ''0''\<rparr>)))
                (if truthy (opt (options q) ''poster'')
                    then updPoster (classAdd ''v-active'') q else q)))"
    using assms(1) by (simp add: onVideoEnded_def q Let_def)
  show "snd (onVideoEnded p) = raised p ''ended''"
    using ended_tail(5)[of q] by (simp add: e pl)
  show "''v-firstStart'' \<notin> classList (container (elements (fst (onVideoEnded p))))"
    using pp(7) by (simp add: e ended_tail(4))
  show "''v-paused'' \<notin> classList (container (elements (fst (onVideoEnded p))))"
    using pp(8) by (simp add: e ended_tail(4))
  show "map_option el_value (progressBar (elements (fst (onVideoEnded p)))) =
           map_option (\<lambda>_. Lit ''0'') (progressBar (elements p))"
    using ended_tail(1)[of q] by (simp add: e pp(4))
  show "map_option innerHTML (currentTime (elements (fst (onVideoEnded p)))) =
           map_option (\<lambda>_. Lit ''00:00'') (currentTime (elements p))"
    using ended_tail(2)[of q] by (simp add: e pp(5))
  show "trace (fst (onVideoEnded p)) =
           trace (fst (play p)) @ Dispatch ''ended'' # map (Run ''ended'') (ran p ''ended'')"
    using ended_tail(3)[of q] by (simp add: e fq pl)
qed

lemmas model_defs =
  Vlitejs_constructor_def Player_constructor_def build_def ControlBar_init_def
  ControlBar_render_def ControlBar_cacheElements_def ControlBar_addEvents_def
  addEvents_def wrapElement_def syncAttribute_def domAttributes_def DEFAULT_OPTIONS_def
  invoke_def emit_def opt_def Let_def updVolume_def setAttribute_def

lemmas example_defs = constructed_def exampleConfig_def examplePage_def exampleVideo_def
  html5_def blank_def

lemma constructed_default:
  "constructed Map.empty = Some defaultPlayer"
  by (simp add: defaultPlayer_def built_def model_defs example_defs)

lemma constructed_loop:
  "constructed loopOptions = Some loopPlayer"
  by (simp add: loopPlayer_def built_def model_defs example_defs loopOptions_def)

lemma constructed_autoplay:
  "constructed autoplayOptions = Some autoplayPlayer"
  by (simp add: autoplayPlayer_def built_def model_defs example_defs autoplayOptions_def)

lemmas player_defs = defaultPlayer_def loopPlayer_def autoplayPlayer_def built_def html5_def
  examplePage_def exampleVideo_def blank_def

lemma defaultPlayer_facts:
  "provided (adapter defaultPlayer) =
     {Init, WaitUntilVideoIsReady, GetInstance, GetCurrentTime, MethodSeekTo,
      GetDuration, MethodPlay, MethodPause, MethodSetVolume, MethodGetVolume,
      MethodMute, MethodUnMute}"
  "registered defaultPlayer ty = []"
  "ran defaultPlayer ty = []"
  "raised defaultPlayer ty = None"
  "opt (options defaultPlayer) ''autoplay'' = Bool False"
  "opt (options defaultPlayer) ''loop'' = Bool False"
  "opt (options defaultPlayer) ''time'' = Bool True"
  "opt (options defaultPlayer) ''playsinline'' = Bool True"
  "m_attributes (media defaultPlayer) = {}"
  "isPaused defaultPlayer = None"
  "requestFn (supportFullScreen (Vlitejs defaultPlayer)) = ''requestFullscreen''"
  "forwardedVolumes (trace defaultPlayer) = []"
  "outcome defaultPlayer f = None"
  by (simp_all add: player_defs registered_def ran_def raised_def opt_def DEFAULT_OPTIONS_def)

lemma loopPlayer_facts:
  "MethodPlay \<in> provided (adapter loopPlayer)"
  "opt (options loopPlayer) ''loop'' = Bool True"
  "raised loopPlayer ty = None"
  by (simp_all add: player_defs opt_def DEFAULT_OPTIONS_def loopOptions_def raised_def
        registered_def)


lemmas run_defs =
  run_def play_def onTimeUpdate_def
  getCurrentTime_def getDuration_def query_def thenDo_def
  discard_def afterPlayPause_def dispatchEvent_eq ran_def raised_def registered_def ok_def
  updContainer_def updPoster_def updPlayPause_def updBigPlay_def updProgressBar_def
  updCurrentTime_def updDuration_def classRemove_def classReplace_def classAdd_def
  setProperty_def setAttribute_def invoke_def emit_def opt_def Let_def wrapElement_def
  DEFAULT_OPTIONS_def loopOptions_def

lemma midLoop_facts:
  "MethodPlay \<in> provided (adapter midLoop)"
  "opt (options midLoop) ''loop'' = Bool True"
  "raised midLoop ty = None"
  "map_option el_value (progressBar (elements midLoop)) =
     Some (NumToStr (Divide (Times (Round (Val (Fin 10))) (Val (Fin 100))) (Val (Fin 200))))"
  "map_option innerHTML (currentTime (elements midLoop)) =
     Some (FormatVideoTime (Round (Val (Fin 10))))"
  by (simp_all add: midLoop_def run_defs player_defs)

lemma offline_facts:
  "truthy (opt (options offline) ''time'')"
  "GetCurrentTime \<in> provided (adapter offline)"
  "GetDuration \<in> provided (adapter offline)"
  "MethodGetVolume \<in> provided (adapter offline)"
  "currentTimeResult (adapter offline) = Fulfilled (Fin 10)"
  "durationResult (adapter offline) = Rejected (Error ''network'')"
  "volumeResult (adapter offline) = Rejected (Error ''network'')"
  by (simp_all add: offline_def failing_def player_defs opt_def DEFAULT_OPTIONS_def)

lemma heckled_facts:
  "registered heckled ''timeupdate'' = [1, 3]"
  "registered heckled ''play'' = [2]"
  "outcome heckled = touchy"
  "trace heckled = trace defaultPlayer"
  "MethodPlay \<in> provided (adapter heckled)"
  "MethodMute \<in> provided (adapter heckled)"
  "MethodSetVolume \<in> provided (adapter heckled)"
  by (simp_all add: heckled_def register_def registrations_def on_def registered_def
        hasOwn_def setProp_def pushProp_def Let_def player_defs)

section \<open>The claims\<close>

subsection \<open>C1: \<^verbatim>\<open>setVolume\<close> clamps\<close>

text \<open>
  C1, as amended. For every volume \<open>v\<close> other than NaN, and a provider that overrides
  \<^verbatim>\<open>methodSetVolume\<close>, \<^verbatim>\<open>setVolume(v)\<close> returns normally and forwards exactly one value
  \<open>c\<close> to the provider, between \<open>0\<close> and \<open>1\<close>: \<open>c\<close> is \<open>1\<close> when \<open>v > 1\<close>; \<open>c\<close> is \<open>0\<close> and
  \<^verbatim>\<open>isMuted\<close> becomes \<^verbatim>\<open>true\<close> when \<open>v \<le> 0\<close>; \<open>c\<close> is \<open>v\<close> and \<^verbatim>\<open>isMuted\<close> becomes
  \<^verbatim>\<open>false\<close> otherwise. After the call to the provider, \<^verbatim>\<open>volumechange\<close> is dispatched
  once, and its listeners run, up to the first that throws; \<^verbatim>\<open>setVolume\<close> throws what
  that listener throws, and returns normally when none does.
\<close>

theorem setVolume_clamps:
  assumes "MethodSetVolume \<in> provided (adapter p)" and "v \<noteq> NaN"
  shows "snd (setVolume v p) = raised p ''volumechange''
    \<and> (raised p ''volumechange'' = None \<longrightarrow> ran p ''volumechange'' = registered p ''volumechange'')
    \<and> (\<exists>c. inUnitInterval c
         \<and> trace (fst (setVolume v p)) =
             trace p @ [Call MethodSetVolume [c], Dispatch ''volumechange''] @
               map (Run ''volumechange'') (ran p ''volumechange'')
         \<and> (num_gt v 1 \<longrightarrow> c = Fin 1)
         \<and> (num_le v 0 \<longrightarrow> c = Fin 0 \<and> isMuted (fst (setVolume v p)) = Bool True)
         \<and> (\<not> num_gt v 1 \<and> \<not> num_le v 0 \<longrightarrow>
               c = v \<and> isMuted (fst (setVolume v p)) = Bool False))
    \<and> count_list (trace (fst (setVolume v p))) (Dispatch ''volumechange'') =
        count_list (trace p) (Dispatch ''volumechange'') + 1"
proof -
  let ?c = "if num_gt v 1 then Fin 1 else if num_le v 0 then Fin 0 else v"
  have unit: "inUnitInterval ?c"
    using assms(2) by (cases v) (auto simp: inUnitInterval_def)
  have gt_le: "num_gt v 1 \<Longrightarrow> \<not> num_le v 0"
    by (cases v) auto
  show ?thesis
    unfolding setVolume_eq[OF assms(1)] Let_def
    using unit gt_le
    by (auto simp: updVolume_def count_Dispatch_Run raised_None_ran intro!: exI[of _ ?c])
qed

text \<open>The theorem at the volume \<open>1/2\<close>, on the player of the example page.\<close>

theorem setVolume_clamps_witness:
  "MethodSetVolume \<in> provided (adapter defaultPlayer) \<and> Fin (1/2) \<noteq> NaN
   \<and> snd (setVolume (Fin (1/2)) defaultPlayer) = None
   \<and> isMuted (fst (setVolume (Fin (1/2)) defaultPlayer)) = Bool False
   \<and> forwardedVolumes (trace (fst (setVolume (Fin (1/2)) defaultPlayer))) = [Fin (1/2)]"
proof -
  have h: "MethodSetVolume \<in> provided (adapter defaultPlayer)"
    by (simp add: defaultPlayer_facts)
  have n: "Fin (1/2) \<noteq> NaN" by simp
  show ?thesis
    using setVolume_clamps[OF h n] h
    by (auto simp: forwardedVolumes_append forwardedVolumes_Run defaultPlayer_facts)
qed

text \<open>
  C1 as stated fails at NaN: both comparisons are false, so the third branch forwards
  NaN, which is not in the interval, and clears \<^verbatim>\<open>isMuted\<close>.
\<close>

theorem setVolume_NaN_counterexample:
  "forwardedVolumes (trace (fst (setVolume NaN defaultPlayer))) = [NaN]
   \<and> \<not> inUnitInterval NaN
   \<and> isMuted (fst (setVolume NaN defaultPlayer)) = Bool False"
proof -
  have h: "MethodSetVolume \<in> provided (adapter defaultPlayer)"
    by (simp add: defaultPlayer_facts)
  show ?thesis
    by (simp add: setVolume_eq[OF h] Let_def forwardedVolumes_append forwardedVolumes_Run
          defaultPlayer_facts inUnitInterval_def updVolume_def)
qed

subsection \<open>C2: a rejected query in \<^verbatim>\<open>onTimeUpdate\<close>\<close>

text \<open>
  C2, as amended. With the \<^verbatim>\<open>time\<close> option on and a provider that implements both
  queries, when the promise of the current time or of the duration is rejected,
  \<^verbatim>\<open>onTimeUpdate\<close> returns normally, changes no element, runs no listener and dispatches
  no \<^verbatim>\<open>timeupdate\<close>: the player is the same but for the trace, which records the two
  queries. The rejection itself is not handled: the promise that \<^verbatim>\<open>then\<close> returns is
  rejected with the same reason and has no handler, and the runtime reports it.
\<close>

theorem onTimeUpdate_rejected:
  assumes "truthy (opt (options p) ''time'')"
    and "GetCurrentTime \<in> provided (adapter p)" and "GetDuration \<in> provided (adapter p)"
    and "currentTimeResult (adapter p) = Rejected e1 \<or> durationResult (adapter p) = Rejected e2"
  shows "\<exists>e. (currentTimeResult (adapter p) = Rejected e \<or> durationResult (adapter p) = Rejected e)
          \<and> onTimeUpdate p =
              (p\<lparr>trace := trace p @
                  [Call GetCurrentTime [], Call GetDuration [], UnhandledRejection e]\<rparr>, None)"
proof -
  obtain e where e: "promiseAll (currentTimeResult (adapter p)) (durationResult (adapter p)) = Rejected e"
    and w: "currentTimeResult (adapter p) = Rejected e \<or> durationResult (adapter p) = Rejected e"
    using promiseAll_rejected[OF assms(4)] by blast
  show ?thesis
    using onTimeUpdate_rejected_eq[OF assms(1-3) e] w by blast
qed

text \<open>The theorem on a player whose provider rejects the duration query.\<close>

theorem onTimeUpdate_rejected_witness:
  "truthy (opt (options offline) ''time'')
   \<and> GetCurrentTime \<in> provided (adapter offline) \<and> GetDuration \<in> provided (adapter offline)
   \<and> (currentTimeResult (adapter offline) = Rejected (Error ''network'')
        \<or> durationResult (adapter offline) = Rejected (Error ''network''))
   \<and> snd (onTimeUpdate offline) = None
   \<and> elements (fst (onTimeUpdate offline)) = elements offline"
proof -
  have d: "currentTimeResult (adapter offline) = Rejected (Error ''network'')
        \<or> durationResult (adapter offline) = Rejected (Error ''network'')"
    by (simp add: offline_facts)
  obtain e where "onTimeUpdate offline =
      (offline\<lparr>trace := trace offline @
          [Call GetCurrentTime [], Call GetDuration [], UnhandledRejection e]\<rparr>, None)"
    using onTimeUpdate_rejected[OF offline_facts(1,2,3) d] by blast
  then show ?thesis
    using d by (simp add: offline_facts)
qed

text \<open>
  C2 as stated fails where it says that nothing escapes unhandled: on that player the
  rejection of the duration query ends as an unhandled rejection.
\<close>

theorem onTimeUpdate_unhandled_counterexample:
  "trace (fst (onTimeUpdate offline)) =
     trace offline @
       [Call GetCurrentTime [], Call GetDuration [], UnhandledRejection (Error ''network'')]"
proof -
  have "promiseAll (currentTimeResult (adapter offline)) (durationResult (adapter offline)) =
          Rejected (Error ''network'')"
    by (simp add: offline_facts)
  then show ?thesis
    using onTimeUpdate_rejected_eq[OF offline_facts(1,2,3)] by simp
qed

subsection \<open>C3: attributes and options after construction\<close>

text \<open>
  C3 fails on the code. The constructor compares the attributes of the media element
  with the options of the caller, and merges the defaults afterwards. On the example page
  (a video element with no attribute, options \<^verbatim>\<open>{}\<close>) construction completes, the merged
  option \<^verbatim>\<open>playsinline\<close> is \<^verbatim>\<open>true\<close>, its default for a video, and the element has no
  \<^verbatim>\<open>playsinline\<close> attribute.
\<close>

theorem playsinline_default_not_on_element:
  "constructed Map.empty = Some defaultPlayer
   \<and> opt (options defaultPlayer) ''playsinline'' = Bool True
   \<and> ''playsinline'' \<notin> m_attributes (media defaultPlayer)"
  by (simp add: constructed_default defaultPlayer_facts)

subsection \<open>C4: \<^verbatim>\<open>isPaused\<close>\<close>




subsection \<open>C5: \<^verbatim>\<open>onVideoEnded\<close>\<close>

text \<open>
  C5. With the \<^verbatim>\<open>loop\<close> option on, \<^verbatim>\<open>onVideoEnded\<close> invokes \<^verbatim>\<open>methodPlay\<close>. With the
  option off, the value of the progress bar (when there is one) is \<^verbatim>\<open>"0"\<close>, the label of
  the current time (when there is one) is \<^verbatim>\<open>"00:00"\<close>, and \<^verbatim>\<open>ended\<close> is dispatched; the
  call returns normally unless a listener of \<^verbatim>\<open>ended\<close> throws.
\<close>

theorem onVideoEnded_loop_or_reset:
  "(truthy (opt (options p) ''loop'') \<longrightarrow>
      (\<exists>xs. trace (fst (onVideoEnded p)) = trace p @ Call MethodPlay [] # xs))
   \<and> (\<not> truthy (opt (options p) ''loop'') \<longrightarrow>
        snd (onVideoEnded p) = raised p ''ended''
      \<and> map_option el_value (progressBar (elements (fst (onVideoEnded p)))) =
          map_option (\<lambda>_. Lit ''0'') (progressBar (elements p))
      \<and> map_option innerHTML (currentTime (elements (fst (onVideoEnded p)))) =
          map_option (\<lambda>_. Lit ''00:00'') (currentTime (elements p))
      \<and> trace (fst (onVideoEnded p)) =
          trace p @ Dispatch ''ended'' # map (Run ''ended'') (ran p ''ended''))"
proof (intro conjI impI)
  assume loop: "truthy (opt (options p) ''loop'')"
  obtain xs where xs: "trace (fst (play p)) = trace p @ Call MethodPlay [] # xs"
    using play_calls_methodPlay by blast
  show "\<exists>xs. trace (fst (onVideoEnded p)) = trace p @ Call MethodPlay [] # xs"
  proof (cases "play p")
    case (Pair p1 r)
    show ?thesis
    proof (cases r)
      case None
      then show ?thesis
        using xs Pair loop
        by (simp add: onVideoEnded_def Let_def ended_tail(3))
    next
      case (Some e)
      then show ?thesis
        using xs Pair loop by (simp add: onVideoEnded_def)
    qed
  qed
next
  assume noloop: "\<not> truthy (opt (options p) ''loop'')"
  let ?p1 = "updContainer (classAdd ''v-firstStart'')
               (updContainer (classReplace ''v-playing'' ''v-paused'') p)"
  have frame: "progressBar (elements ?p1) = progressBar (elements p)"
    "currentTime (elements ?p1) = currentTime (elements p)"
    "trace ?p1 = trace p" "ran ?p1 ''ended'' = ran p ''ended''"
    "raised ?p1 ''ended'' = raised p ''ended''"
    by (simp_all add: updContainer_def)
  show "snd (onVideoEnded p) = raised p ''ended''"
    using noloop ended_tail(5)[of ?p1]
    by (simp add: onVideoEnded_def Let_def ok_def frame)
  show "map_option el_value (progressBar (elements (fst (onVideoEnded p)))) =
          map_option (\<lambda>_. Lit ''0'') (progressBar (elements p))"
    using noloop ended_tail(1)[of ?p1]
    by (simp add: onVideoEnded_def Let_def ok_def frame)
  show "map_option innerHTML (currentTime (elements (fst (onVideoEnded p)))) =
          map_option (\<lambda>_. Lit ''00:00'') (currentTime (elements p))"
    using noloop ended_tail(2)[of ?p1]
    by (simp add: onVideoEnded_def Let_def ok_def frame)
  show "trace (fst (onVideoEnded p)) =
          trace p @ Dispatch ''ended'' # map (Run ''ended'') (ran p ''ended'')"
    using noloop ended_tail(3)[of ?p1]
    by (simp add: onVideoEnded_def Let_def ok_def frame)
qed

text \<open>The theorem on the looping player and on the player of the example page.\<close>

theorem onVideoEnded_loop_or_reset_witness:
  "truthy (opt (options loopPlayer) ''loop'')
   \<and> Call MethodPlay [] \<in> set (trace (fst (onVideoEnded loopPlayer)))
   \<and> \<not> truthy (opt (options defaultPlayer) ''loop'')
   \<and> snd (onVideoEnded defaultPlayer) = None
   \<and> map_option el_value (progressBar (elements (fst (onVideoEnded defaultPlayer)))) =
        Some (Lit ''0'')
   \<and> map_option innerHTML (currentTime (elements (fst (onVideoEnded defaultPlayer)))) =
        Some (Lit ''00:00'')
   \<and> trace (fst (onVideoEnded defaultPlayer)) = trace defaultPlayer @ [Dispatch ''ended'']"
proof -
  have l: "truthy (opt (options loopPlayer) ''loop'')"
    by (simp add: loopPlayer_facts)
  have n: "\<not> truthy (opt (options defaultPlayer) ''loop'')"
    by (simp add: defaultPlayer_facts)
  have e: "progressBar (elements defaultPlayer) \<noteq> None"
    "currentTime (elements defaultPlayer) \<noteq> None"
    by (simp_all add: defaultPlayer_def built_def)
  show ?thesis
    using onVideoEnded_loop_or_reset[of loopPlayer] onVideoEnded_loop_or_reset[of defaultPlayer]
      l n e
    by (auto simp: defaultPlayer_facts)
qed

subsection \<open>C6: the end of a looping video\<close>

text \<open>
  C6, as amended. With the \<^verbatim>\<open>loop\<close> option on, a provider that implements
  \<^verbatim>\<open>methodPlay\<close> and no listener of \<^verbatim>\<open>play\<close> that throws, \<^verbatim>\<open>onVideoEnded\<close> replays, and
  the container is not taken back to its paused, first-start state: it has neither class
  afterwards. The reset of the progress bar and of the label is not reserved for the other
  case: the value of the progress bar is \<^verbatim>\<open>"0"\<close>, the label of the current time is
  \<^verbatim>\<open>"00:00"\<close>, and \<^verbatim>\<open>ended\<close> is dispatched after the replay.
\<close>

theorem onVideoEnded_loop_resets:
  assumes "truthy (opt (options p) ''loop'')" and "MethodPlay \<in> provided (adapter p)"
    and "raised p ''play'' = None"
  shows "snd (onVideoEnded p) = raised p ''ended''
     \<and> ''v-firstStart'' \<notin> classList (container (elements (fst (onVideoEnded p))))
     \<and> ''v-paused'' \<notin> classList (container (elements (fst (onVideoEnded p))))
     \<and> map_option el_value (progressBar (elements (fst (onVideoEnded p)))) =
           map_option (\<lambda>_. Lit ''0'') (progressBar (elements p))
     \<and> map_option innerHTML (currentTime (elements (fst (onVideoEnded p)))) =
           map_option (\<lambda>_. Lit ''00:00'') (currentTime (elements p))
     \<and> (\<exists>xs. trace (fst (onVideoEnded p)) =
           trace p @ Call MethodPlay [] # xs @
             Dispatch ''ended'' # map (Run ''ended'') (ran p ''ended''))"
proof -
  note f = onVideoEnded_loop_facts[OF assms]
  obtain xs where xs: "trace (fst (play p)) = trace p @ Call MethodPlay [] # xs"
    using play_calls_methodPlay by blast
  have tr: "\<exists>xs. trace (fst (onVideoEnded p)) =
           trace p @ Call MethodPlay [] # xs @
             Dispatch ''ended'' # map (Run ''ended'') (ran p ''ended'')"
    using f(6) xs by simp
  show ?thesis
    using f(1,2,3,4,5) tr by blast
qed

text \<open>The theorem on the looping player in the middle of playback.\<close>

theorem onVideoEnded_loop_resets_witness:
  "truthy (opt (options midLoop) ''loop'') \<and> MethodPlay \<in> provided (adapter midLoop)
   \<and> raised midLoop ''play'' = None
   \<and> snd (onVideoEnded midLoop) = None
   \<and> ''v-paused'' \<notin> classList (container (elements (fst (onVideoEnded midLoop))))
   \<and> map_option el_value (progressBar (elements (fst (onVideoEnded midLoop)))) =
        Some (Lit ''0'')"
proof -
  have l: "truthy (opt (options midLoop) ''loop'')"
    by (simp add: midLoop_facts)
  have pb: "progressBar (elements midLoop) \<noteq> None"
    using midLoop_facts(4) by auto
  show ?thesis
    using onVideoEnded_loop_resets[OF l midLoop_facts(1) midLoop_facts(3)] l pb
    by (auto simp: midLoop_facts)
qed

text \<open>
  C6 as stated fails on that player: before the call the progress bar and the label
  show the position; after it both are back at zero, although the video loops.
\<close>

theorem onVideoEnded_loop_counterexample:
  "truthy (opt (options midLoop) ''loop'')
   \<and> map_option el_value (progressBar (elements midLoop)) =
        Some (NumToStr (Divide (Times (Round (Val (Fin 10))) (Val (Fin 100))) (Val (Fin 200))))
   \<and> map_option el_value (progressBar (elements (fst (onVideoEnded midLoop)))) = Some (Lit ''0'')
   \<and> map_option innerHTML (currentTime (elements midLoop)) =
        Some (FormatVideoTime (Round (Val (Fin 10))))
   \<and> map_option innerHTML (currentTime (elements (fst (onVideoEnded midLoop)))) =
        Some (Lit ''00:00'')"
proof -
  have l: "truthy (opt (options midLoop) ''loop'')"
    by (simp add: midLoop_facts)
  note f = onVideoEnded_loop_facts[OF l midLoop_facts(1) midLoop_facts(3)]
  have pb: "map_option el_value (progressBar (elements (fst (onVideoEnded midLoop)))) =
              Some (Lit ''0'')"
    using f(4) midLoop_facts(4) by (cases "progressBar (elements midLoop)") simp_all
  have ct: "map_option innerHTML (currentTime (elements (fst (onVideoEnded midLoop)))) =
              Some (Lit ''00:00'')"
    using f(5) midLoop_facts(5) by (cases "currentTime (elements midLoop)") simp_all
  show ?thesis
    using l pb ct midLoop_facts(4,5) by simp
qed

subsection \<open>C7: listeners run in the order of registration\<close>

text \<open>
  C7, as amended. For every event kind other than \<^verbatim>\<open>'__proto__'\<close>, after any list of
  calls of \<^verbatim>\<open>on\<close>, \<^verbatim>\<open>dispatchEvent\<close> calls the listeners that were there for the kind,
  then the functions registered for it by these calls, in the order of the calls, up to
  the first one that throws: that exception ends the dispatch and goes to the caller, and
  the listeners after it are not called. When none throws, all of them are called and
  \<^verbatim>\<open>dispatchEvent\<close> returns normally. Nothing else changes. For every kind, dispatching
  when no listener is registered under it calls nothing, changes nothing and does not
  throw.
\<close>

theorem dispatchEvent_registration_order:
  "(ty \<noteq> ''__proto__'' \<longrightarrow>
      dispatchEvent ty (register p regs) =
        ((register p regs)\<lparr>trace := trace p @ Dispatch ty #
            map (Run ty) (called (outcome p) (registered p ty @ listenersFor ty regs))\<rparr>,
         thrown (outcome p) (registered p ty @ listenersFor ty regs)))
   \<and> (ty \<noteq> ''__proto__''
        \<and> thrown (outcome p) (registered p ty @ listenersFor ty regs) = None \<longrightarrow>
      dispatchEvent ty (register p regs) =
        ((register p regs)\<lparr>trace := trace p @ Dispatch ty #
            map (Run ty) (registered p ty @ listenersFor ty regs)\<rparr>, None))
   \<and> (registered p k = [] \<longrightarrow> dispatchEvent k p = (p\<lparr>trace := trace p @ [Dispatch k]\<rparr>, None))"
  by (simp add: dispatchEvent_eq ran_def raised_def registered_register register_frame
        thrown_None_called)

text \<open>
  The theorem on the player of the example page: two listeners for \<^verbatim>\<open>timeupdate\<close> with
  one for \<^verbatim>\<open>play\<close> between them, first when none throws, then when the first one does;
  and a kind that was never registered.
\<close>

theorem dispatchEvent_registration_order_witness:
  "''timeupdate'' \<noteq> ''__proto__''
   \<and> thrown (outcome defaultPlayer)
        (registered defaultPlayer ''timeupdate'' @ listenersFor ''timeupdate'' registrations) = None
   \<and> dispatchEvent ''timeupdate'' (register defaultPlayer registrations) =
       ((register defaultPlayer registrations)\<lparr>trace := trace defaultPlayer @
           [Dispatch ''timeupdate'', Run ''timeupdate'' 1, Run ''timeupdate'' 3]\<rparr>, None)
   \<and> dispatchEvent ''timeupdate'' (register (exec defaultPlayer (Host touchy)) registrations) =
       ((register (exec defaultPlayer (Host touchy)) registrations)\<lparr>trace := trace defaultPlayer @
           [Dispatch ''timeupdate'', Run ''timeupdate'' 1]\<rparr>, Some (Error ''listener''))
   \<and> registered defaultPlayer ''ended'' = []
   \<and> dispatchEvent ''ended'' defaultPlayer =
       (defaultPlayer\<lparr>trace := trace defaultPlayer @ [Dispatch ''ended'']\<rparr>, None)"
proof -
  have r: "registered (exec defaultPlayer (Host touchy)) ''timeupdate'' = []"
    by (simp add: registered_def defaultPlayer_def built_def)
  show ?thesis
    using dispatchEvent_registration_order[of "''timeupdate''" defaultPlayer registrations
        "''ended''"]
      dispatchEvent_registration_order[of "''timeupdate''" "exec defaultPlayer (Host touchy)"
        registrations "''ended''"] r
    by (simp add: defaultPlayer_facts listenersFor_def registrations_def touchy_def)
qed

text \<open>
  C7 as stated fails at the kind \<^verbatim>\<open>'__proto__'\<close>: the assignment in \<^verbatim>\<open>on\<close> replaces the
  prototype of \<^verbatim>\<open>customEvents\<close> and creates no own key, so the listener is stored where
  \<^verbatim>\<open>dispatchEvent\<close> does not look, and is not run.
\<close>

theorem dispatchEvent_proto_counterexample:
  "proto (customEvents (on ''__proto__'' (Function 7) defaultPlayer)) = Some [7]
   \<and> registered (on ''__proto__'' (Function 7) defaultPlayer) ''__proto__'' = []
   \<and> trace (fst (dispatchEvent ''__proto__'' (on ''__proto__'' (Function 7) defaultPlayer))) =
       trace defaultPlayer @ [Dispatch ''__proto__'']"
  by (simp add: dispatchEvent_eq ran_def on_def registered_def hasOwn_def setProp_def
        pushProp_def Let_def defaultPlayer_def built_def)

subsection \<open>C8: fullscreen without the capability\<close>

text \<open>
  C8. When the media element has no function under the name of the fullscreen request,
  \<^verbatim>\<open>requestFullscreen\<close> returns normally and leaves the player as it is: \<^verbatim>\<open>isFullScreen\<close>,
  the classes of the container and of the controls are unchanged and nothing is
  dispatched.
\<close>

theorem requestFullscreen_unavailable:
  "requestFn (supportFullScreen (Vlitejs p)) \<notin> m_truthy (media p) \<Longrightarrow>
   requestFullscreen p = (p, None)"
  by (simp add: requestFullscreen_def Let_def ok_def)

text \<open>The theorem on a player whose video element lacks the function.\<close>

theorem requestFullscreen_unavailable_witness:
  "requestFn (supportFullScreen (Vlitejs noFullscreen)) \<notin> m_truthy (media noFullscreen)
   \<and> requestFullscreen noFullscreen = (noFullscreen, None)"
proof -
  have h: "requestFn (supportFullScreen (Vlitejs noFullscreen)) \<notin> m_truthy (media noFullscreen)"
    by (simp add: noFullscreen_def)
  show ?thesis
    using requestFullscreen_unavailable[OF h] h by simp
qed

subsection \<open>C9: the base class throws, and says which capability is missing\<close>

text \<open>
  C9. The body of every capability in the base class throws an error whose message is
  \<^verbatim>\<open>You have to implement the function "name".\<close>, with the name of that capability; a
  call of a capability that the provider does not override throws that error to its
  caller, and two capabilities never share a message.
\<close>

theorem base_names_capability:
  "base m = Error (''You have to implement the function \"'' @ methodName m @ ''\".'')
   \<and> (m \<notin> provided (adapter p) \<longrightarrow>
        snd (invoke m args p) = Some (base m) \<and> snd (query m r p) = Inl (base m))
   \<and> (base m = base m' \<longrightarrow> m = m')"
proof (intro conjI impI)
  show "base m = Error (''You have to implement the function \"'' @ methodName m @ ''\".'')"
    by (cases m) simp_all
  show "snd (invoke m args p) = Some (base m)" if "m \<notin> provided (adapter p)"
    using that by (simp add: invoke_def Let_def emit_def)
  show "snd (query m r p) = Inl (base m)" if "m \<notin> provided (adapter p)"
    using that by (simp add: query_def Let_def emit_def)
  show "m = m'" if "base m = base m'"
    using that by (cases m; cases m'; simp)
qed

text \<open>The theorem on a player of a provider that overrides nothing.\<close>

theorem base_names_capability_witness:
  "MethodPlay \<notin> provided (adapter abstractPlayer)
   \<and> snd (invoke MethodPlay [] abstractPlayer) =
       Some (Error ''You have to implement the function \"methodPlay\".'')
   \<and> snd (play abstractPlayer) =
       Some (Error ''You have to implement the function \"methodPlay\".'')
   \<and> base MethodPlay = base MethodPlay"
proof -
  have h: "MethodPlay \<notin> provided (adapter abstractPlayer)"
    by (simp add: abstractPlayer_def abstract_def)
  have "snd (play abstractPlayer) = snd (invoke MethodPlay [] abstractPlayer)"
    using h by (simp add: play_def Let_def invoke_base updContainer_def updPoster_def)
  then show ?thesis
    using base_names_capability[of MethodPlay abstractPlayer "[]" _ MethodPlay] h by simp
qed

subsection \<open>C10: a rejected volume query\<close>

text \<open>
  C10. When the provider implements \<^verbatim>\<open>methodGetVolume\<close> and its promise is rejected, the
  promise that \<^verbatim>\<open>getVolume\<close> returns never settles, and the host's two volume handlers,
  which chain on it, do nothing more than \<^verbatim>\<open>getVolume\<close> did: the player is as before but
  for the trace, which records the query and the rejection of the inner promise, which
  no handler takes; \<^verbatim>\<open>setVolume\<close> is not called and nothing is dispatched.
\<close>

theorem getVolume_rejected_never_settles:
  assumes "MethodGetVolume \<in> provided (adapter p)" and "volumeResult (adapter p) = Rejected e"
  shows "snd (getVolume p) = Never
       \<and> fst (getVolume p) = p\<lparr>trace := trace p @ [Call MethodGetVolume [], UnhandledRejection e]\<rparr>
       \<and> increaseVolume up p = fst (getVolume p)
       \<and> decreaseVolume down p = fst (getVolume p)"
  by (simp add: getVolume_rejected_eq[OF assms] increaseVolume_def decreaseVolume_def
        thenDo_def discard_def)

text \<open>The theorem on a player whose provider rejects the volume query.\<close>

theorem getVolume_rejected_never_settles_witness:
  "MethodGetVolume \<in> provided (adapter offline)
   \<and> volumeResult (adapter offline) = Rejected (Error ''network'')
   \<and> snd (getVolume offline) = Never
   \<and> forwardedVolumes (trace (increaseVolume volumeUp offline)) = []"
proof -
  have t: "forwardedVolumes (trace offline) = []"
    by (simp add: offline_def defaultPlayer_facts)
  show ?thesis
    using getVolume_rejected_never_settles[OF offline_facts(4) offline_facts(7), of volumeUp]
    by (simp add: offline_facts forwardedVolumes_append t)
qed

end
